theory Spec2Isabelle
  imports Complex_Main "HOL-Library.Multiset" "HOL-Library.Log_Nat"
begin

section \<open>Cross-validation harness of asap_essay_scoring\<close>

text \<open>
  A shallow embedding of \<^verbatim>\<open>asap_essay_scoring/cross_predict.py\<close> (class
  \<^verbatim>\<open>CrossPredict\<close>) and of \<^verbatim>\<open>token_features\<close> in
  \<^verbatim>\<open>asap_essay_scoring/pipeline.py\<close>.

  Python exceptions are values of \<open>error\<close>; a function that can raise returns
  \<open>error + 'a\<close>. A function that also touches mutable objects takes the \<open>world\<close>
  and returns the result together with the world it leaves behind, also when it raises.
  Output printed in verbose mode is not modelled.
\<close>

subsection \<open>Exceptions\<close>

text \<open>
  \<open>AssertionError m\<close> carries the message of the \<^verbatim>\<open>assert\<close> statement that
  raised it, \<open>None\<close> for an \<^verbatim>\<open>assert\<close> written without a message.
\<close>

datatype error = AssertionError "string option" | ValueError | IndexError | KeyError

subsection \<open>Binary64 arithmetic\<close>

text \<open>
  The ratios of the structural check are numpy \<^verbatim>\<open>float64\<close> values. A finite
  double is represented by the rational it denotes, and an operation rounds the exact
  result to the nearest double, ties to even (53 bits of precision). Exponent overflow
  and subnormal numbers are not modelled: the values that occur are quotients of row
  counts. All values that occur are non-negative, so the only infinity is \<open>PosInf\<close>.
\<close>

definition pow2 :: "int \<Rightarrow> rat" where
  "pow2 e = (if 0 \<le> e then 2 ^ nat e else 1 / 2 ^ nat (- e))"

text \<open>
  For \<open>0 < q\<close>, \<open>binade q\<close> is the exponent \<open>e\<close> with \<open>2 ^ e \<le> q < 2 ^ (e + 1)\<close>;
  \<open>bitlen a\<close> is the number of binary digits of \<open>a\<close>.
\<close>

definition binade :: "rat \<Rightarrow> int" where
  "binade q =
     (let (a, b) = quotient_of q;
          e0 = bitlen a - bitlen b
      in if q < pow2 e0 then e0 - 1 else e0)"

definition round_half_even :: "rat \<Rightarrow> int" where
  "round_half_even q =
     (let f = \<lfloor>q\<rfloor>; r = q - of_int f
      in if r < 1 / 2 then f else if 1 / 2 < r then f + 1
         else if even f then f else f + 1)"

definition f64 :: "rat \<Rightarrow> rat" where
  "f64 q =
     (if q = 0 then 0
      else let a = \<bar>q\<bar>; e = binade a;
               m = of_int (round_half_even (a * pow2 (52 - e))) * pow2 (e - 52)
           in if q < 0 then - m else m)"

datatype pyfloat = NaN | PosInf | Fin rat

fun fdiv :: "pyfloat \<Rightarrow> pyfloat \<Rightarrow> pyfloat" where
  "fdiv (Fin a) (Fin b) =
     (if b = 0 then (if a = 0 then NaN else PosInf) else Fin (f64 (a / b)))"
| "fdiv (Fin a) PosInf = Fin 0"
| "fdiv PosInf (Fin b) = PosInf"
| "fdiv _ _ = NaN"

fun flt :: "pyfloat \<Rightarrow> pyfloat \<Rightarrow> bool" where
  "flt (Fin a) (Fin b) = (a < b)"
| "flt (Fin a) PosInf = True"
| "flt _ _ = False"

fun fge :: "pyfloat \<Rightarrow> pyfloat \<Rightarrow> bool" where
  "fge (Fin a) (Fin b) = (b \<le> a)"
| "fge PosInf (Fin b) = True"
| "fge PosInf PosInf = True"
| "fge _ _ = False"

text \<open>Conversion of an integer count to \<^verbatim>\<open>float64\<close>.\<close>

definition float_of_count :: "nat \<Rightarrow> pyfloat" where
  "float_of_count n = Fin (f64 (of_nat n))"

text \<open>
  \<^verbatim>\<open>Series.max()\<close> and \<^verbatim>\<open>Series.min()\<close>: the extreme of the values
  that are not NaN, and NaN when there is none.
\<close>

fun fmax2 :: "pyfloat \<Rightarrow> pyfloat \<Rightarrow> pyfloat" where
  "fmax2 NaN y = y"
| "fmax2 x NaN = x"
| "fmax2 x y = (if flt x y then y else x)"

fun fmin2 :: "pyfloat \<Rightarrow> pyfloat \<Rightarrow> pyfloat" where
  "fmin2 NaN y = y"
| "fmin2 x NaN = x"
| "fmin2 x y = (if flt y x then y else x)"

definition series_max :: "pyfloat list \<Rightarrow> pyfloat" where
  "series_max xs = foldr fmax2 xs NaN"

definition series_min :: "pyfloat list \<Rightarrow> pyfloat" where
  "series_min xs = foldr fmin2 xs NaN"

text \<open>The literal \<^verbatim>\<open>1.02\<close>.\<close>

definition tolerance :: pyfloat where
  "tolerance = Fin (f64 (102 / 100))"

text \<open>A positive finite double.\<close>

definition pos_fin :: "pyfloat \<Rightarrow> bool" where
  "pos_fin x = (case x of Fin r \<Rightarrow> 0 < r | _ \<Rightarrow> False)"

subsection \<open>Data model\<close>

text \<open>
  The dataset object: features \<^verbatim>\<open>X\<close>, labels \<^verbatim>\<open>y\<close> and group labels
  \<^verbatim>\<open>group\<close>, one entry per row. The feature row, the label and the group label
  are opaque to the harness.
\<close>

record ('x, 'y, 'g) dataset =
  data_X :: "'x list"
  data_y :: "'y list"
  data_group :: "'g list"

text \<open>
  Modelled from the spec: \<^verbatim>\<open>Dataset.select\<close> is defined outside the two source
  files. The spec: "Supports select(row_indices) -> Dataset returning a new Dataset
  restricted to given rows, preserving row correspondence across X/y/group" and "Must
  not mutate the original Dataset". An index that is not a row of the dataset raises
  \<open>IndexError\<close>.
\<close>

definition select_rows :: "('x, 'y, 'g) dataset \<Rightarrow> nat list \<Rightarrow> error + ('x, 'y, 'g) dataset" where
  "select_rows d rows =
     (if \<forall>i \<in> set rows. i < length (data_X d) \<and> i < length (data_y d) \<and> i < length (data_group d)
      then Inr \<lparr>data_X = map (\<lambda>i. data_X d ! i) rows,
                data_y = map (\<lambda>i. data_y d ! i) rows,
                data_group = map (\<lambda>i. data_group d ! i) rows\<rparr>
      else Inl IndexError)"

text \<open>A fold: the dictionary \<^verbatim>\<open>{'train': train_index, 'test': test_index}\<close>.\<close>

record fold =
  train :: "nat list"
  test :: "nat list"

text \<open>A row of \<^verbatim>\<open>self.keys\<close>: columns \<^verbatim>\<open>essay_set\<close> and \<^verbatim>\<open>ref\<close>.\<close>

record 'g key_row =
  essay_set :: 'g
  ref :: nat

text \<open>
  A row of the table built by \<^verbatim>\<open>_train_and_predict\<close>: columns
  \<^verbatim>\<open>pred\<close>, \<^verbatim>\<open>truth\<close>, \<^verbatim>\<open>idx\<close> and \<^verbatim>\<open>essay_set\<close>.
\<close>

record ('v, 'y, 'g) prediction =
  pred :: 'v
  truth :: 'y
  idx :: nat
  pred_essay_set :: 'g

subsection \<open>Mutable objects and the external libraries\<close>

text \<open>
  A hyperparameter object is \<open>Atomic\<close> when \<^verbatim>\<open>copy.deepcopy\<close> returns the
  object itself: \<^verbatim>\<open>None\<close> (the default of the constructor), a number, a string,
  or a tuple of these. Such an object has no state that a program can change. Every other
  configuration object (a dictionary, a list, an instance) is \<open>Compound\<close>:
  \<^verbatim>\<open>copy.deepcopy\<close> builds a new object that shares nothing with it. Functions,
  classes and modules, which \<^verbatim>\<open>copy.deepcopy\<close> also returns as they are, are not
  configuration data and are not modelled.
\<close>

datatype 'p obj = Atomic 'p | Compound 'p

fun value_of :: "'p obj \<Rightarrow> 'p" where
  "value_of (Atomic v) = v"
| "value_of (Compound v) = v"

text \<open>
  Hyperparameter objects live in \<open>heap\<close>, addressed by their position; the harness
  holds the address of the object it was given. \<open>np_random\<close> is the state of numpy's
  process-wide random generator. \<open>calls\<close> records every learner that has been
  instantiated and run: the address and the value of the hyperparameter object it was
  given, and the rows it was trained on and predicted.
\<close>

record 'p call =
  c_addr :: nat
  c_params :: 'p
  c_train :: "nat list"
  c_test :: "nat list"

record ('p, 'r) world =
  heap :: "'p obj list"
  np_random :: 'r
  calls :: "'p call list"

text \<open>
  numpy and scikit-learn are outside the repository and are parameters:
  \<open>np_random_seed s\<close> is the generator state that \<^verbatim>\<open>np.random.seed(s)\<close> installs,
  \<open>StratifiedKFold_split n X group r\<close> is what
  \<^verbatim>\<open>StratifiedKFold(n_splits=n, shuffle=True).split(X, group)\<close> yields when the
  generator is in state \<open>r\<close> (the folds, or the exception it raises), with the state it
  leaves.
\<close>

record ('x, 'g, 'r) libs =
  np_random_seed :: "nat \<Rightarrow> 'r"
  StratifiedKFold_split :: "nat \<Rightarrow> 'x list \<Rightarrow> 'g list \<Rightarrow> 'r \<Rightarrow> (error + fold list) \<times> 'r"

text \<open>
  A learner class, run as the harness runs it: constructed on a hyperparameter object,
  trained on a dataset, asked to predict a feature table. It returns the value it leaves
  in its hyperparameter object and the predictions. It reaches no other object.
\<close>

type_synonym ('x, 'y, 'g, 'p, 'v) learner =
  "'p \<Rightarrow> ('x, 'y, 'g) dataset \<Rightarrow> 'x list \<Rightarrow> 'p \<times> 'v list"

text \<open>The object \<^verbatim>\<open>self\<close>; \<open>self_params\<close> is the address of \<^verbatim>\<open>self.params\<close>.\<close>

record ('x, 'y, 'g, 'p, 'v) CrossPredict =
  self_data :: "('x, 'y, 'g) dataset"
  self_params :: nat
  self_Learner :: "('x, 'y, 'g, 'p, 'v) learner"
  self_verbose :: nat
  self_folds :: "fold list"
  self_keys :: "'g key_row list"

subsection \<open>pandas operations\<close>

text \<open>\<^verbatim>\<open>df.iloc[rows]\<close>: rows by position.\<close>

definition iloc :: "'a list \<Rightarrow> nat list \<Rightarrow> error + 'a list" where
  "iloc df rows =
     (if \<forall>i \<in> set rows. i < length df then Inr (map (\<lambda>i. df ! i) rows) else Inl IndexError)"

text \<open>
  \<^verbatim>\<open>df.groupby('essay_set')\<close>: the group labels in ascending order, each with its
  rows in the order of \<open>df\<close>.
\<close>

definition groupby_essay_set :: "('g::linorder) key_row list \<Rightarrow> ('g \<times> 'g key_row list) list" where
  "groupby_essay_set df =
     map (\<lambda>e. (e, filter (\<lambda>r. essay_set r = e) df)) (sort (remdups (map essay_set df)))"

text \<open>\<^verbatim>\<open>grouped.groups.keys()\<close> and \<^verbatim>\<open>grouped.get_group(e).ref\<close>.\<close>

definition groups_keys :: "('g \<times> 'g key_row list) list \<Rightarrow> 'g list" where
  "groups_keys gb = map fst gb"

definition get_group_ref :: "('g \<times> 'g key_row list) list \<Rightarrow> 'g \<Rightarrow> error + nat list" where
  "get_group_ref gb e =
     (case map_of gb e of None \<Rightarrow> Inl KeyError | Some rows \<Rightarrow> Inr (map ref rows))"

text \<open>The first exception of a sequence of results, or all the values.\<close>

fun collect :: "(error + 'a) list \<Rightarrow> error + 'a list" where
  "collect [] = Inr []"
| "collect (Inl e # rs) = Inl e"
| "collect (Inr v # rs) = (case collect rs of Inl e \<Rightarrow> Inl e | Inr vs \<Rightarrow> Inr (v # vs))"

text \<open>\<^verbatim>\<open>pd.concat(frames)\<close> raises \<^verbatim>\<open>ValueError\<close> on an empty list.\<close>

definition pd_concat :: "'a list list \<Rightarrow> error + 'a list" where
  "pd_concat frames = (if frames = [] then Inl ValueError else Inr (concat frames))"

text \<open>
  \<^verbatim>\<open>left.merge(right, on=['fold', 'essay_set'], how='inner')\<close>: one row for every
  pair of a left row and a right row with the same key, in the order of the left rows.
\<close>

definition merge_inner ::
  "(nat \<times> 'g \<times> nat) list \<Rightarrow> (nat \<times> 'g \<times> nat) list \<Rightarrow> (nat \<times> 'g \<times> nat \<times> nat) list" where
  "merge_inner l r =
     concat (map (\<lambda>(k, e, tc).
       map (\<lambda>(k', e', sc). (k, e, tc, sc)) (filter (\<lambda>(k', e', sc). k' = k \<and> e' = e) r)) l)"

subsection \<open>The harness\<close>

text \<open>
  \<^verbatim>\<open>copy.deepcopy(self.params)\<close>: the object at address \<open>a\<close> itself when it is
  atomic, and otherwise a new object with its value.
\<close>

definition deepcopy :: "nat \<Rightarrow> ('p, 'r) world \<Rightarrow> nat \<times> ('p, 'r) world" where
  "deepcopy a w =
     (case heap w ! a of
        Atomic v \<Rightarrow> (a, w)
      | Compound v \<Rightarrow> (length (heap w), w\<lparr>heap := heap w @ [Compound v]\<rparr>))"

text \<open>
  The value \<open>p'\<close> that a learner leaves in the hyperparameter object at address \<open>a\<close>.
  An atomic object cannot be changed: with such an object the learner can only bind its
  own attribute to another object.
\<close>

definition leave_in :: "'p obj list \<Rightarrow> nat \<Rightarrow> 'p \<Rightarrow> 'p obj list" where
  "leave_in hp a p' = (case hp ! a of Atomic v \<Rightarrow> hp | Compound v \<Rightarrow> hp[a := Compound p'])"

text \<open>
  \<^verbatim>\<open>self.keys.essay_set[test_idx]\<close>: lookup by row label; the labels of
  \<^verbatim>\<open>self.keys\<close> are the positions.
\<close>

definition essay_set_of :: "'g key_row list \<Rightarrow> nat list \<Rightarrow> error + 'g list" where
  "essay_set_of ks rows =
     (if \<forall>i \<in> set rows. i < length ks then Inr (map (\<lambda>i. essay_set (ks ! i)) rows)
      else Inl KeyError)"

text \<open>
  \<^verbatim>\<open>pd.DataFrame({'pred': ..., 'truth': ..., 'idx': ..., 'essay_set': ...})\<close>:
  the columns must have one length.
\<close>

definition prediction_frame ::
  "'v list \<Rightarrow> 'y list \<Rightarrow> nat list \<Rightarrow> 'g list \<Rightarrow> error + ('v, 'y, 'g) prediction list" where
  "prediction_frame ps ts is es =
     (if length ps = length is \<and> length ts = length is \<and> length es = length is
      then Inr (map (\<lambda>j. \<lparr>pred = ps ! j, truth = ts ! j, idx = is ! j, pred_essay_set = es ! j\<rparr>)
                  [0..<length is])
      else Inl ValueError)"

text \<open>\<^verbatim>\<open>_train_and_predict(self, train_idx, test_idx)\<close>\<close>

definition train_and_predict ::
  "('x, 'y, 'g, 'p, 'v) CrossPredict \<Rightarrow> nat list \<Rightarrow> nat list \<Rightarrow> ('p, 'r) world \<Rightarrow>
     (error + ('v, 'y, 'g) prediction list) \<times> ('p, 'r) world" where
  "train_and_predict self train_idx test_idx w =
     (case select_rows (self_data self) train_idx of
        Inl e \<Rightarrow> (Inl e, w)
      | Inr train_data \<Rightarrow>
     (case select_rows (self_data self) test_idx of
        Inl e \<Rightarrow> (Inl e, w)
      | Inr test_data \<Rightarrow>
     (let (a, w1) = deepcopy (self_params self) w;
          (p', preds) = self_Learner self (value_of (heap w1 ! a)) train_data (data_X test_data);
          w2 = w1\<lparr>heap := leave_in (heap w1) a p',
                  calls := calls w1 @ [\<lparr>c_addr = a, c_params = value_of (heap w1 ! a),
                                         c_train = train_idx, c_test = test_idx\<rparr>]\<rparr>
      in case essay_set_of (self_keys self) test_idx of
           Inl e \<Rightarrow> (Inl e, w2)
         | Inr es \<Rightarrow> (prediction_frame preds (data_y test_data) test_idx es, w2))))"

text \<open>
  A list comprehension whose body runs in the world: the elements in order, stopping at
  the first exception.
\<close>

fun for_each ::
  "('a \<Rightarrow> 'w \<Rightarrow> (error + 'b) \<times> 'w) \<Rightarrow> 'a list \<Rightarrow> 'w \<Rightarrow> (error + 'b list) \<times> 'w" where
  "for_each f [] w = (Inr [], w)"
| "for_each f (x # xs) w =
     (case f x w of
        (Inl e, w1) \<Rightarrow> (Inl e, w1)
      | (Inr v, w1) \<Rightarrow>
          (case for_each f xs w1 of
             (Inl e, w2) \<Rightarrow> (Inl e, w2)
           | (Inr vs, w2) \<Rightarrow> (Inr (v # vs), w2)))"

text \<open>
  The body shared by \<^verbatim>\<open>_train_and_predict_one_fold\<close> and \<^verbatim>\<open>cheat\<close>:
  \<^verbatim>\<open>pd.concat([self._train_and_predict(trn_es.get_group(e).ref,
  tst_es.get_group(e).ref) for e in essays])\<close>
\<close>

definition predict_groups ::
  "('x, 'y, 'g::linorder, 'p, 'v) CrossPredict \<Rightarrow> ('g \<times> 'g key_row list) list \<Rightarrow>
     ('g \<times> 'g key_row list) list \<Rightarrow> 'g list \<Rightarrow> ('p, 'r) world \<Rightarrow>
     (error + ('v, 'y, 'g) prediction list) \<times> ('p, 'r) world" where
  "predict_groups self trn_es tst_es essays w =
     (case for_each (\<lambda>e w.
             case get_group_ref trn_es e of
               Inl err \<Rightarrow> (Inl err, w)
             | Inr train_idx \<Rightarrow>
             (case get_group_ref tst_es e of
                Inl err \<Rightarrow> (Inl err, w)
              | Inr test_idx \<Rightarrow> train_and_predict self train_idx test_idx w)) essays w of
        (Inl err, w') \<Rightarrow> (Inl err, w')
      | (Inr frames, w') \<Rightarrow> (pd_concat frames, w'))"

text \<open>\<^verbatim>\<open>_train_and_predict_one_fold(self, k)\<close>\<close>

definition train_and_predict_one_fold ::
  "('x, 'y, 'g::linorder, 'p, 'v) CrossPredict \<Rightarrow> nat \<Rightarrow> ('p, 'r) world \<Rightarrow>
     (error + ('v, 'y, 'g) prediction list) \<times> ('p, 'r) world" where
  "train_and_predict_one_fold self k w =
     (if length (self_folds self) \<le> k then (Inl IndexError, w)
      else let trn = train (self_folds self ! k);
               tst = test (self_folds self ! k)
      in case iloc (self_keys self) trn of
           Inl e \<Rightarrow> (Inl e, w)
         | Inr trn_rows \<Rightarrow>
         (case iloc (self_keys self) tst of
            Inl e \<Rightarrow> (Inl e, w)
          | Inr tst_rows \<Rightarrow>
          (let trn_es = groupby_essay_set trn_rows;
               tst_es = groupby_essay_set tst_rows;
               essays = groups_keys tst_es
           in if set essays \<noteq> set (groups_keys trn_es) then (Inl (AssertionError None), w)
              else predict_groups self trn_es tst_es essays w)))"

text \<open>
  \<^verbatim>\<open>preds.sort_values('idx')\<close>. pandas leaves the order of rows with equal
  \<^verbatim>\<open>idx\<close> open; here they keep their order.
\<close>

definition sort_values_idx :: "('v, 'y, 'g) prediction list \<Rightarrow> ('v, 'y, 'g) prediction list" where
  "sort_values_idx preds = sort_key idx preds"

text \<open>\<^verbatim>\<open>cross_predict(self)\<close>\<close>

definition cross_predict ::
  "('x, 'y, 'g::linorder, 'p, 'v) CrossPredict \<Rightarrow> ('p, 'r) world \<Rightarrow>
     (error + ('v, 'y, 'g) prediction list) \<times> ('p, 'r) world" where
  "cross_predict self w =
     (let kr = [0..<length (self_folds self)]
      in case for_each (train_and_predict_one_fold self) kr w of
           (Inl e, w') \<Rightarrow> (Inl e, w')
         | (Inr frames, w') \<Rightarrow>
             (case pd_concat frames of
                Inl e \<Rightarrow> (Inl e, w')
              | Inr preds \<Rightarrow> (Inr (sort_values_idx preds), w')))"

text \<open>\<^verbatim>\<open>cheat(self)\<close>\<close>

definition cheat ::
  "('x, 'y, 'g::linorder, 'p, 'v) CrossPredict \<Rightarrow> ('p, 'r) world \<Rightarrow>
     (error + ('v, 'y, 'g) prediction list) \<times> ('p, 'r) world" where
  "cheat self w =
     (let trn_es = groupby_essay_set (self_keys self);
          tst_es = groupby_essay_set (self_keys self);
          essays = groups_keys tst_es
      in predict_groups self trn_es tst_es essays w)"

text \<open>
  \<^verbatim>\<open>_count_per_essay_set(self, k, rows)\<close>: rows \<open>(fold, essay_set, count)\<close>.
  Naming three columns of a table built from no rows raises \<^verbatim>\<open>ValueError\<close>.
\<close>

definition count_per_essay_set ::
  "('x, 'y, 'g::linorder, 'p, 'v) CrossPredict \<Rightarrow> nat \<Rightarrow> nat list \<Rightarrow> error + (nat \<times> 'g \<times> nat) list" where
  "count_per_essay_set self k rows =
     (case iloc (self_keys self) rows of
        Inl e \<Rightarrow> Inl e
      | Inr sub \<Rightarrow>
          (let cdf = map (\<lambda>(e, g). (k, e, length g)) (groupby_essay_set sub)
           in if cdf = [] then Inl ValueError
              else Inr (sort_key (\<lambda>(k, e, c). e) cdf)))"

text \<open>
  The two tables of \<^verbatim>\<open>analyze_cross_predict_structure\<close>:
  \<^verbatim>\<open>pd.concat([self._count_per_essay_set(k, f[part]) for k, f in enumerate(self.folds)])\<close>
\<close>

definition fold_counts ::
  "('x, 'y, 'g::linorder, 'p, 'v) CrossPredict \<Rightarrow> (fold \<Rightarrow> nat list) \<Rightarrow> error + (nat \<times> 'g \<times> nat) list" where
  "fold_counts self part =
     (case collect (map (\<lambda>(k, f). count_per_essay_set self k (part f))
                      (enumerate 0 (self_folds self))) of
        Inl e \<Rightarrow> Inl e
      | Inr frames \<Rightarrow> pd_concat frames)"

text \<open>\<^verbatim>\<open>ratios = df.train_count/df.test_count\<close>\<close>

definition ratios_of :: "(nat \<times> 'g \<times> nat \<times> nat) list \<Rightarrow> pyfloat list" where
  "ratios_of df = map (\<lambda>(k, e, tc, sc). fdiv (float_of_count tc) (float_of_count sc)) df"

definition max_ratio :: "(nat \<times> 'g \<times> nat \<times> nat) list \<Rightarrow> pyfloat" where
  "max_ratio df = series_max (ratios_of df)"

definition min_ratio :: "(nat \<times> 'g \<times> nat \<times> nat) list \<Rightarrow> pyfloat" where
  "min_ratio df = series_min (ratios_of df)"

text \<open>\<^verbatim>\<open>analyze_cross_predict_structure(self)\<close>\<close>

definition analyze_cross_predict_structure ::
  "('x, 'y, 'g::linorder, 'p, 'v) CrossPredict \<Rightarrow> error + (nat \<times> 'g \<times> nat \<times> nat) list" where
  "analyze_cross_predict_structure self =
     (case fold_counts self train of
        Inl e \<Rightarrow> Inl e
      | Inr train_counts \<Rightarrow>
     (case fold_counts self test of
        Inl e \<Rightarrow> Inl e
      | Inr test_counts \<Rightarrow>
     (let df = merge_inner train_counts test_counts
      in if flt (fdiv (max_ratio df) (min_ratio df)) tolerance then Inr df
         else Inl (AssertionError None))))"

text \<open>
  \<^verbatim>\<open>pd.DataFrame({'essay_set': data.group, 'ref': list(range(len(data.y)))})\<close>:
  the columns must have one length.
\<close>

definition keys_of :: "('x, 'y, 'g) dataset \<Rightarrow> 'g key_row list" where
  "keys_of d = map (\<lambda>i. \<lparr>essay_set = data_group d ! i, ref = i\<rparr>) [0..<length (data_y d)]"

definition make_keys :: "('x, 'y, 'g) dataset \<Rightarrow> error + 'g key_row list" where
  "make_keys d =
     (if length (data_group d) = length (data_y d) then Inr (keys_of d) else Inl ValueError)"

text \<open>
  \<^verbatim>\<open>CrossPredict.__init__(self, data, Learner, hyperparameters, n_fold, verbose)\<close>;
  \<open>hyperparameters\<close> is the address of the object passed.
\<close>

definition CrossPredict_init ::
  "('x, 'g::linorder, 'r) libs \<Rightarrow> ('x, 'y, 'g) dataset \<Rightarrow> ('x, 'y, 'g, 'p, 'v) learner \<Rightarrow> nat \<Rightarrow>
     nat \<Rightarrow> nat \<Rightarrow> ('p, 'r) world \<Rightarrow> (error + ('x, 'y, 'g, 'p, 'v) CrossPredict) \<times> ('p, 'r) world" where
  "CrossPredict_init lib data Learner hyperparameters n_fold verbose w =
     (let w1 = w\<lparr>np_random := np_random_seed lib 0\<rparr>;
          (r, rng) = StratifiedKFold_split lib n_fold (data_X data) (data_group data) (np_random w1);
          w2 = w1\<lparr>np_random := rng\<rparr>
      in case r of
           Inl e \<Rightarrow> (Inl e, w2)
         | Inr folds \<Rightarrow>
         (case make_keys data of
            Inl e \<Rightarrow> (Inl e, w2)
          | Inr ks \<Rightarrow>
          (let self = \<lparr>self_data = data, self_params = hyperparameters,
                       self_Learner = Learner, self_verbose = verbose,
                       self_folds = folds, self_keys = ks\<rparr>
           in case analyze_cross_predict_structure self of
                Inl e \<Rightarrow> (Inl e, w2)
              | Inr df \<Rightarrow> (Inr self, w2))))"

subsection \<open>Contracts of the collaborators\<close>

text \<open>
  The learner contract of the spec: \<^verbatim>\<open>predict\<close> returns one prediction per row
  of the feature table it is given.
\<close>

definition one_prediction_per_row :: "('x, 'y, 'g, 'p, 'v) learner \<Rightarrow> bool" where
  "one_prediction_per_row L = (\<forall>p d xs. length (snd (L p d xs)) = length xs)"

text \<open>
  A harness whose key table is the one the constructor builds, over a dataset whose three
  columns have one length (the invariant of the dataset), with a learner that keeps its
  contract.
\<close>

definition ready :: "('x, 'y, 'g, 'p, 'v) CrossPredict \<Rightarrow> bool" where
  "ready self =
     (self_keys self = keys_of (self_data self) \<and>
      length (data_group (self_data self)) = length (data_y (self_data self)) \<and>
      length (data_X (self_data self)) = length (data_y (self_data self)) \<and>
      one_prediction_per_row (self_Learner self))"

text \<open>
  With the group labels \<open>gr\<close> of the dataset: the rows among \<open>rows\<close> that belong to
  group \<open>e\<close>, in the order of \<open>rows\<close>, and the group labels that occur among
  \<open>rows\<close>, ascending.
\<close>

abbreviation group_rows :: "'g list \<Rightarrow> nat list \<Rightarrow> 'g \<Rightarrow> nat list" where
  "group_rows gr rows e \<equiv> filter (\<lambda>i. gr ! i = e) rows"

abbreviation group_labels :: "('g::linorder) list \<Rightarrow> nat list \<Rightarrow> 'g list" where
  "group_labels gr rows \<equiv> sort (remdups (map (\<lambda>i. gr ! i) rows))"

text \<open>The rows a learner was trained on and the rows it predicted, for every learner run.\<close>

abbreviation trained_on :: "('p, 'r) world \<Rightarrow> (nat list \<times> nat list) list" where
  "trained_on w \<equiv> map (\<lambda>c. (c_train c, c_test c)) (calls w)"

text \<open>
  \<open>given_copy a w c\<close>: the learner run \<open>c\<close> received what \<^verbatim>\<open>copy.deepcopy\<close>
  returns for the object at address \<open>a\<close> of the world \<open>w\<close>: an object with the value
  of that object, which is that object itself when it is atomic and an object allocated
  after \<open>w\<close> otherwise.
\<close>

definition given_copy :: "nat \<Rightarrow> ('p, 'r) world \<Rightarrow> 'p call \<Rightarrow> bool" where
  "given_copy a w c =
     (c_params c = value_of (heap w ! a) \<and>
      (case heap w ! a of
         Atomic v \<Rightarrow> c_addr c = a
       | Compound v \<Rightarrow> length (heap w) \<le> c_addr c))"

text \<open>
  \<open>runs_on_copies a w w'\<close>: the world \<open>w'\<close> arises from \<open>w\<close> by allocating new
  hyperparameter objects and running learners on copies of the object at address \<open>a\<close>
  only. Every object of \<open>w\<close> is unchanged.
\<close>

definition runs_on_copies :: "nat \<Rightarrow> ('p, 'r) world \<Rightarrow> ('p, 'r) world \<Rightarrow> bool" where
  "runs_on_copies a w w' =
     (a < length (heap w) \<longrightarrow>
       (\<exists>hs cs. heap w' = heap w @ hs \<and> calls w' = calls w @ cs \<and>
          (\<forall>c \<in> set cs. given_copy a w c)))"

subsection \<open>Small harnesses\<close>

text \<open>
  Concrete inputs for the properties below. The learner predicts the sum of the labels it
  was trained on for every row, and increments its hyperparameter object. The splitter
  returns the given folds.

  The first dataset has five rows, four of group 1 and one of group 2, split in two
  folds; the row of group 2 is a test row of fold 0 and a train row of fold 1. The second
  has four rows, two of each group, and each fold holds one row of each group on each
  side.
\<close>

definition ex_Learner :: "(nat, int, nat, nat, int) learner" where
  "ex_Learner p d xs = (Suc p, map (\<lambda>x. sum_list (data_y d)) xs)"

definition ex_libs :: "fold list \<Rightarrow> (nat, nat, nat) libs" where
  "ex_libs folds = \<lparr>np_random_seed = (\<lambda>s. s),
                    StratifiedKFold_split = (\<lambda>n X group r. (Inr folds, Suc r))\<rparr>"

definition ex_world :: "(nat, nat) world" where
  "ex_world = \<lparr>heap = [Compound 7], np_random = 5, calls = []\<rparr>"

definition ex_world_atomic :: "(nat, nat) world" where
  "ex_world_atomic = \<lparr>heap = [Atomic 7], np_random = 5, calls = []\<rparr>"

definition ex_data_uneven :: "(nat, int, nat) dataset" where
  "ex_data_uneven = \<lparr>data_X = [10, 11, 12, 13, 14], data_y = [1, 2, 3, 4, 5],
                     data_group = [1, 1, 1, 1, 2]\<rparr>"

definition ex_folds_uneven :: "fold list" where
  "ex_folds_uneven = [\<lparr>train = [2, 3], test = [0, 1, 4]\<rparr>, \<lparr>train = [0, 1, 4], test = [2, 3]\<rparr>]"

definition ex_uneven :: "(nat, int, nat, nat, int) CrossPredict" where
  "ex_uneven = \<lparr>self_data = ex_data_uneven, self_params = 0, self_Learner = ex_Learner,
                self_verbose = 0, self_folds = ex_folds_uneven, self_keys = keys_of ex_data_uneven\<rparr>"

definition ex_data_even :: "(nat, int, nat) dataset" where
  "ex_data_even = \<lparr>data_X = [10, 11, 12, 13], data_y = [1, 2, 3, 4], data_group = [1, 1, 2, 2]\<rparr>"

definition ex_folds_even :: "fold list" where
  "ex_folds_even = [\<lparr>train = [1, 3], test = [0, 2]\<rparr>, \<lparr>train = [0, 2], test = [1, 3]\<rparr>]"

definition ex_even :: "(nat, int, nat, nat, int) CrossPredict" where
  "ex_even = \<lparr>self_data = ex_data_even, self_params = 0, self_Learner = ex_Learner,
              self_verbose = 0, self_folds = ex_folds_even, self_keys = keys_of ex_data_even\<rparr>"

text \<open>
  A third dataset of five rows, two of group 1 and three of group 2, in two folds: group
  2 has two test rows in fold 0 and one in fold 1.
\<close>

definition ex_data_skewed :: "(nat, int, nat) dataset" where
  "ex_data_skewed = \<lparr>data_X = [10, 11, 12, 13, 14], data_y = [1, 2, 3, 4, 5],
                     data_group = [1, 1, 2, 2, 2]\<rparr>"

definition ex_folds_skewed :: "fold list" where
  "ex_folds_skewed = [\<lparr>train = [1, 4], test = [0, 2, 3]\<rparr>, \<lparr>train = [0, 2, 3], test = [1, 4]\<rparr>]"

definition ex_skewed :: "(nat, int, nat, nat, int) CrossPredict" where
  "ex_skewed = \<lparr>self_data = ex_data_skewed, self_params = 0, self_Learner = ex_Learner,
                self_verbose = 0, self_folds = ex_folds_skewed, self_keys = keys_of ex_data_skewed\<rparr>"

text \<open>
  The first harness with the two group labels exchanged: now the single row is the one
  of group 1.
\<close>

definition ex_data_swapped :: "(nat, int, nat) dataset" where
  "ex_data_swapped = \<lparr>data_X = [10, 11, 12, 13, 14], data_y = [1, 2, 3, 4, 5],
                      data_group = [2, 2, 2, 2, 1]\<rparr>"

definition ex_swapped :: "(nat, int, nat, nat, int) CrossPredict" where
  "ex_swapped = \<lparr>self_data = ex_data_swapped, self_params = 0, self_Learner = ex_Learner,
                 self_verbose = 0, self_folds = ex_folds_uneven, self_keys = keys_of ex_data_swapped\<rparr>"

text \<open>
  A fourth dataset of two rows, one of each group, in two folds: no group has a train row
  and a test row in the same fold.
\<close>

definition ex_data_disjoint :: "(nat, int, nat) dataset" where
  "ex_data_disjoint = \<lparr>data_X = [10, 11], data_y = [1, 2], data_group = [1, 2]\<rparr>"

definition ex_folds_disjoint :: "fold list" where
  "ex_folds_disjoint = [\<lparr>train = [0], test = [1]\<rparr>, \<lparr>train = [1], test = [0]\<rparr>]"

definition ex_disjoint :: "(nat, int, nat, nat, int) CrossPredict" where
  "ex_disjoint = \<lparr>self_data = ex_data_disjoint, self_params = 0, self_Learner = ex_Learner,
                  self_verbose = 0, self_folds = ex_folds_disjoint,
                  self_keys = keys_of ex_data_disjoint\<rparr>"

subsection \<open>The ratios over all pairs\<close>

text \<open>
  The table of counts as the specification words the structural check, "for every
  (fold, group) pair": one row for every fold and every group label of the dataset, with
  the number of train rows and the number of test rows of the fold that carry the label,
  zero when there is none. The source builds \<open>merge_inner\<close> of the two count tables
  instead.
\<close>

definition all_pairs_counts ::
  "('x, 'y, 'g::linorder, 'p, 'v) CrossPredict \<Rightarrow> (nat \<times> 'g \<times> nat \<times> nat) list" where
  "all_pairs_counts self =
     (let gr = data_group (self_data self)
      in concat (map (\<lambda>(k, f).
           map (\<lambda>e. (k, e, length (group_rows gr (train f) e), length (group_rows gr (test f) e)))
             (group_labels gr [0..<length gr]))
           (enumerate 0 (self_folds self))))"

subsection \<open>The token-feature stage\<close>

text \<open>
  \<^verbatim>\<open>np.mean\<close> and \<^verbatim>\<open>np.std\<close> of a list of token lengths, as numpy defines
  them: the arithmetic mean, and the square root of the mean squared deviation from it.
  On an empty list both give NaN and a warning, no exception. The finite values are
  the exact ones; their rounding to \<^verbatim>\<open>float64\<close> is not modelled.
\<close>

datatype stat = StatNaN | Stat real

definition np_mean :: "nat list \<Rightarrow> stat" where
  "np_mean xs = (if xs = [] then StatNaN else Stat (real (sum_list xs) / real (length xs)))"

definition np_std :: "nat list \<Rightarrow> stat" where
  "np_std xs =
     (if xs = [] then StatNaN
      else let m = real (sum_list xs) / real (length xs)
           in Stat (sqrt (sum_list (map (\<lambda>x. (real x - m)\<^sup>2) xs) / real (length xs))))"

text \<open>
  \<^verbatim>\<open>token_features\<close>, from the document list read from \<^verbatim>\<open>infile\<close> to the
  rows \<open>(word_len_mean, word_len_std)\<close> of the table written to \<^verbatim>\<open>outfile\<close>.
  A token is a list of characters.
\<close>

definition token_features :: "'c list list list \<Rightarrow> (stat \<times> stat) list" where
  "token_features doc_list =
     zip (map (\<lambda>essay. np_mean (map length essay)) doc_list)
         (map (\<lambda>essay. np_std (map length essay)) doc_list)"

section \<open>Auxiliary lemmas\<close>

subsection \<open>Sequencing\<close>

lemma for_each_Inr:
  assumes "\<And>x w. x \<in> set xs \<Longrightarrow> \<exists>v. fst (f x w) = Inr v \<and> Q x v"
  shows "\<exists>vs. fst (for_each f xs w) = Inr vs \<and> list_all2 Q xs vs"
  using assms
proof (induction xs arbitrary: w)
  case Nil
  then show ?case by simp
next
  case (Cons x xs)
  obtain v where v: "fst (f x w) = Inr v" "Q x v"
    using Cons.prems [of x w] by auto
  obtain w1 where w1: "f x w = (Inr v, w1)"
    using v(1) by (cases "f x w") auto
  obtain vs where vs: "fst (for_each f xs w1) = Inr vs" "list_all2 Q xs vs"
    using Cons.IH [of w1] Cons.prems by auto
  obtain w2 where w2: "for_each f xs w1 = (Inr vs, w2)"
    using vs(1) by (cases "for_each f xs w1") auto
  show ?case using w1 w2 v(2) vs(2) by simp
qed

lemma for_each_Inl:
  assumes "\<And>x w. x \<in> set xs \<Longrightarrow> (\<exists>v. fst (f x w) = Inr v) \<or> fst (f x w) = Inl E"
    and "\<exists>x \<in> set xs. \<forall>w. fst (f x w) = Inl E"
  shows "fst (for_each f xs w) = Inl E"
  using assms
proof (induction xs arbitrary: w)
  case Nil
  then show ?case by simp
next
  case (Cons x xs)
  have alt: "(\<exists>v. fst (f x w) = Inr v) \<or> fst (f x w) = Inl E"
    using Cons.prems(1) [of x w] by simp
  show ?case
  proof (cases "f x w")
    case (Pair r w1)
    show ?thesis
    proof (cases r)
      case (Inl e)
      then have "e = E" using alt Pair by auto
      then show ?thesis using Pair Inl by simp
    next
      case (Inr v)
      then have "\<not> (\<forall>w. fst (f x w) = Inl E)" using Pair
        by (metis Inl_Inr_False fst_conv)
      then have "\<exists>y \<in> set xs. \<forall>w. fst (f y w) = Inl E"
        using Cons.prems(2) by auto
      then have "fst (for_each f xs w1) = Inl E"
        using Cons.IH [of w1] Cons.prems(1) by simp
      then show ?thesis using Pair Inr
        by (cases "for_each f xs w1") (auto split: sum.splits)
    qed
  qed
qed

lemma for_each_rel:
  assumes "\<And>x w. x \<in> set xs \<Longrightarrow> R w (snd (f x w))"
    and "\<And>w. R w w"
    and "\<And>a b c. R a b \<Longrightarrow> R b c \<Longrightarrow> R a c"
  shows "R w (snd (for_each f xs w))"
  using assms(1)
proof (induction xs arbitrary: w)
  case Nil
  then show ?case using assms(2) by simp
next
  case (Cons x xs)
  have 1: "R w (snd (f x w))" using Cons.prems by simp
  have 2: "R (snd (f x w)) (snd (for_each f xs (snd (f x w))))"
    using Cons.IH Cons.prems by simp
  show ?case
  proof (cases "f x w")
    case (Pair r w1)
    then show ?thesis using 1 2 assms(3) [of w w1 "snd (for_each f xs w1)"]
      by (cases r; cases "for_each f xs w1") (auto split: sum.splits)
  qed
qed

lemma for_each_trace:
  assumes "\<And>x w. x \<in> set xs \<Longrightarrow> (\<exists>v. fst (f x w) = Inr v) \<and> T (snd (f x w)) = T w @ [t x]"
  shows "T (snd (for_each f xs w)) = T w @ map t xs"
  using assms
proof (induction xs arbitrary: w)
  case Nil
  then show ?case by simp
next
  case (Cons x xs)
  have "(\<exists>v. fst (f x w) = Inr v) \<and> T (snd (f x w)) = T w @ [t x]"
    using Cons.prems [of x w] by simp
  then obtain v w1 where 1: "f x w = (Inr v, w1)" "T w1 = T w @ [t x]"
    by (cases "f x w") auto
  have 2: "T (snd (for_each f xs w1)) = T w1 @ map t xs"
    using Cons.IH Cons.prems by simp
  show ?case using 1 2
    by (cases "for_each f xs w1") (auto split: sum.splits)
qed

lemma collect_map_Inr: "collect (map Inr vs) = Inr vs"
  by (induction vs) auto

lemma collect_Inr_D: "collect rs = Inr vs \<Longrightarrow> rs = map Inr vs"
proof (induction rs arbitrary: vs)
  case Nil
  then show ?case by auto
next
  case (Cons r rs)
  then show ?case by (cases r) (auto split: sum.splits)
qed

subsection \<open>Grouping\<close>

lemma groups_keys_groupby:
  "groups_keys (groupby_essay_set df) = sort (remdups (map essay_set df))"
  by (simp add: groups_keys_def groupby_essay_set_def comp_def)

lemma set_groups_keys_groupby:
  "set (groups_keys (groupby_essay_set df)) = essay_set ` set df"
  by (simp add: groups_keys_groupby)

lemma map_of_tabulate:
  "e \<in> set es \<Longrightarrow> map_of (map (\<lambda>e. (e, g e)) es) e = Some (g e)"
  by (induction es) auto

lemma get_group_ref_groupby:
  assumes "e \<in> essay_set ` set df"
  shows "get_group_ref (groupby_essay_set df) e = Inr (map ref (filter (\<lambda>r. essay_set r = e) df))"
proof -
  have "e \<in> set (sort (remdups (map essay_set df)))"
    using assms by simp
  then show ?thesis
    unfolding get_group_ref_def groupby_essay_set_def
    by (simp add: map_of_tabulate)
qed

lemma mset_concat_filter_distinct:
  assumes "distinct es"
  shows "mset (concat (map (\<lambda>e. filter (\<lambda>r. g r = e) xs) es)) = mset (filter (\<lambda>r. g r \<in> set es) xs)"
  using assms
proof (induction es)
  case Nil
  then show ?case by simp
next
  case (Cons e es)
  have "mset (filter (\<lambda>r. g r = e) xs) + mset (filter (\<lambda>r. g r \<in> set es) xs)
      = mset (filter (\<lambda>r. g r = e \<or> g r \<in> set es) xs)"
    using Cons.prems by (induction xs) auto
  then show ?case using Cons by simp
qed

lemma mset_concat_groups:
  "mset (concat (map (\<lambda>e. filter (\<lambda>r. g r = e) xs) (sort (remdups (map g xs))))) = mset xs"
proof -
  have "mset (concat (map (\<lambda>e. filter (\<lambda>r. g r = e) xs) (sort (remdups (map g xs)))))
      = mset (filter (\<lambda>r. g r \<in> set (sort (remdups (map g xs)))) xs)"
    by (rule mset_concat_filter_distinct) simp
  also have "\<dots> = mset xs"
    by (simp add: filter_id_conv)
  finally show ?thesis .
qed

subsection \<open>The key table\<close>

lemma iloc_keys_of:
  assumes "\<forall>i \<in> set rows. i < length (data_y d)"
  shows "iloc (keys_of d) rows = Inr (map (\<lambda>i. \<lparr>essay_set = data_group d ! i, ref = i\<rparr>) rows)"
  using assms by (simp add: iloc_def keys_of_def)

lemma iloc_keys_of_Inr:
  "iloc (keys_of d) rows = Inr sub \<Longrightarrow> \<forall>i \<in> set rows. i < length (data_y d)"
  by (auto simp: iloc_def keys_of_def split: if_splits)

lemma refs_of_group:
  "map ref (filter (\<lambda>r. essay_set r = e) (map (\<lambda>i. \<lparr>essay_set = gr ! i, ref = i\<rparr>) rows))
     = filter (\<lambda>i. gr ! i = e) rows"
  by (induction rows) auto

lemma essay_set_rows:
  "essay_set ` set (map (\<lambda>i. \<lparr>essay_set = gr ! i, ref = i\<rparr>) rows) = (\<lambda>i. gr ! i) ` set rows"
  by (auto simp: image_iff)

subsection \<open>Training and predicting one group\<close>

lemma select_rows_Inr:
  assumes "\<forall>i \<in> set rows. i < n" "length (data_X d) = n" "length (data_y d) = n" "length (data_group d) = n"
  shows "select_rows d rows = Inr \<lparr>data_X = map (\<lambda>i. data_X d ! i) rows,
                data_y = map (\<lambda>i. data_y d ! i) rows,
                data_group = map (\<lambda>i. data_group d ! i) rows\<rparr>"
  using assms by (simp add: select_rows_def)

lemma map_idx_prediction_frame:
  "prediction_frame ps ts is es = Inr frame \<Longrightarrow> map idx frame = is"
  by (auto simp: prediction_frame_def map_nth comp_def split: if_splits)

lemma prediction_frame_Inr:
  "length ps = length is \<Longrightarrow> length ts = length is \<Longrightarrow> length es = length is \<Longrightarrow>
   \<exists>frame. prediction_frame ps ts is es = Inr frame"
  by (simp add: prediction_frame_def)

lemma train_and_predict_world:
  "snd (train_and_predict self tr ts w) = w \<or>
   (\<exists>hs. snd (train_and_predict self tr ts w) =
      w\<lparr>heap := heap w @ hs,
        calls := calls w @ [\<lparr>c_addr = (case heap w ! self_params self of
                                          Atomic v \<Rightarrow> self_params self
                                        | Compound v \<Rightarrow> length (heap w)),
                              c_params = value_of (heap w ! self_params self),
                              c_train = tr, c_test = ts\<rparr>]\<rparr>)"
proof (cases "heap w ! self_params self")
  case (Atomic v)
  then have "snd (train_and_predict self tr ts w) = w \<or>
      snd (train_and_predict self tr ts w) =
        w\<lparr>heap := heap w @ [],
          calls := calls w @ [\<lparr>c_addr = self_params self, c_params = v,
                                c_train = tr, c_test = ts\<rparr>]\<rparr>"
    by (auto simp: train_and_predict_def deepcopy_def leave_in_def Let_def
        split: sum.splits prod.splits)
  then show ?thesis
  proof
    assume "snd (train_and_predict self tr ts w) = w"
    then show ?thesis by simp
  next
    assume *: "snd (train_and_predict self tr ts w) =
        w\<lparr>heap := heap w @ [],
          calls := calls w @ [\<lparr>c_addr = self_params self, c_params = v,
                                c_train = tr, c_test = ts\<rparr>]\<rparr>"
    show ?thesis
      by (rule disjI2, rule exI [of _ "[]"]) (simp add: * Atomic)
  qed
next
  case (Compound v)
  then have "snd (train_and_predict self tr ts w) = w \<or>
      (\<exists>p'. snd (train_and_predict self tr ts w) =
        w\<lparr>heap := heap w @ [Compound p'],
          calls := calls w @ [\<lparr>c_addr = length (heap w), c_params = v,
                                c_train = tr, c_test = ts\<rparr>]\<rparr>)"
    by (auto simp: train_and_predict_def deepcopy_def leave_in_def Let_def nth_append
        split: sum.splits prod.splits)
  then show ?thesis using Compound by auto
qed


lemma essay_set_of_keys_of:
  assumes "\<forall>i \<in> set rows. i < length (data_y d)"
  shows "essay_set_of (keys_of d) rows = Inr (map (\<lambda>i. data_group d ! i) rows)"
  using assms by (simp add: essay_set_of_def keys_of_def)

lemma train_and_predict_Inr:
  assumes "ready self"
    and "\<forall>i \<in> set tr. i < length (data_y (self_data self))"
    and "\<forall>i \<in> set ts. i < length (data_y (self_data self))"
  shows "\<exists>frame. fst (train_and_predict self tr ts w) = Inr frame \<and> map idx frame = ts"
proof -
  let ?d = "self_data self"
  let ?n = "length (data_y ?d)"
  have len: "length (data_X ?d) = ?n" "length (data_group ?d) = ?n"
    and ks: "self_keys self = keys_of ?d"
    and L: "one_prediction_per_row (self_Learner self)"
    using assms(1) by (simp_all add: ready_def)
  obtain trd where trd: "select_rows ?d tr = Inr trd"
    using select_rows_Inr [OF assms(2) len(1) _ len(2)] by simp
  let ?tsd = "\<lparr>data_X = map (\<lambda>i. data_X ?d ! i) ts, data_y = map (\<lambda>i. data_y ?d ! i) ts,
      data_group = map (\<lambda>i. data_group ?d ! i) ts\<rparr>"
  have tsd: "select_rows ?d ts = Inr ?tsd"
    using select_rows_Inr [OF assms(3) len(1) _ len(2)] by simp
  have es: "essay_set_of (self_keys self) ts = Inr (map (\<lambda>i. data_group ?d ! i) ts)"
    using essay_set_of_keys_of [OF assms(3)] ks by simp
  have plen: "length (snd (self_Learner self p trd (map (\<lambda>i. data_X ?d ! i) ts))) = length ts" for p
    using L [unfolded one_prediction_per_row_def, rule_format, of p trd "data_X ?tsd"] by simp
  have "\<exists>frame. prediction_frame (snd (self_Learner self p trd (data_X ?tsd))) (data_y ?tsd) ts
      (map (\<lambda>i. data_group ?d ! i) ts) = Inr frame" for p
    by (rule prediction_frame_Inr) (simp_all add: plen)
  then show ?thesis
    using trd tsd es
    by (auto simp: train_and_predict_def Let_def split: prod.splits dest: map_idx_prediction_frame)
       (metis map_idx_prediction_frame snd_conv)
qed

subsection \<open>Training and predicting the groups of a split\<close>

lemma map_idx_concat:
  "list_all2 (\<lambda>x v. map f v = g x) xs vs \<Longrightarrow> map f (concat vs) = concat (map g xs)"
  by (induction xs vs rule: list_all2_induct) auto

lemma groupby_iloc_keys:
  "groups_keys (groupby_essay_set (map (\<lambda>i. \<lparr>essay_set = gr ! i, ref = i\<rparr>) rows)) = group_labels gr rows"
  by (simp add: groups_keys_groupby comp_def)

lemma get_group_ref_rows:
  assumes "e \<in> (\<lambda>i. gr ! i) ` set rows"
  shows "get_group_ref (groupby_essay_set (map (\<lambda>i. \<lparr>essay_set = gr ! i, ref = i\<rparr>) rows)) e
     = Inr (group_rows gr rows e)"
proof -
  have "e \<in> essay_set ` set (map (\<lambda>i. \<lparr>essay_set = gr ! i, ref = i\<rparr>) rows)"
    using assms by (simp only: essay_set_rows)
  then show ?thesis
    by (simp only: get_group_ref_groupby refs_of_group)
qed

lemma train_and_predict_trace:
  assumes "fst (train_and_predict self tr ts w) = Inr frame"
  shows "trained_on (snd (train_and_predict self tr ts w)) = trained_on w @ [(tr, ts)]"
  using assms
  by (auto simp: train_and_predict_def deepcopy_def leave_in_def Let_def
      split: sum.splits prod.splits obj.splits)

lemma group_step:
  assumes "e \<in> (\<lambda>i. gr ! i) ` set trn" and "e \<in> (\<lambda>i. gr ! i) ` set tst"
  shows "(case get_group_ref (groupby_essay_set (map (\<lambda>i. \<lparr>essay_set = gr ! i, ref = i\<rparr>) trn)) e of
            Inl err \<Rightarrow> (Inl err, w)
          | Inr train_idx \<Rightarrow>
             (case get_group_ref (groupby_essay_set (map (\<lambda>i. \<lparr>essay_set = gr ! i, ref = i\<rparr>) tst)) e of
                Inl err \<Rightarrow> (Inl err, w)
              | Inr test_idx \<Rightarrow> train_and_predict self train_idx test_idx w))
         = train_and_predict self (group_rows gr trn e) (group_rows gr tst e) w"
  by (simp add: get_group_ref_rows [OF assms(1)] get_group_ref_rows [OF assms(2)])

lemma predict_groups_Inr:
  fixes self :: "('x, 'y, 'g::linorder, 'p, 'v) CrossPredict" and w :: "('p, 'r) world"
  defines "gr \<equiv> data_group (self_data self)"
  assumes rdy: "ready self"
    and trn: "\<forall>i \<in> set trn. i < length (data_y (self_data self))"
    and tst: "\<forall>i \<in> set tst. i < length (data_y (self_data self))"
    and sub: "(\<lambda>i. gr ! i) ` set tst \<subseteq> (\<lambda>i. gr ! i) ` set trn"
    and ne: "tst \<noteq> []"
  shows "\<exists>frame w'.
      predict_groups self (groupby_essay_set (map (\<lambda>i. \<lparr>essay_set = gr ! i, ref = i\<rparr>) trn))
        (groupby_essay_set (map (\<lambda>i. \<lparr>essay_set = gr ! i, ref = i\<rparr>) tst))
        (group_labels gr tst) w = (Inr frame, w') \<and>
      map idx frame = concat (map (group_rows gr tst) (group_labels gr tst)) \<and>
      trained_on w' = trained_on w @
        map (\<lambda>e. (group_rows gr trn e, group_rows gr tst e)) (group_labels gr tst)"
proof -
  let ?trn_es = "groupby_essay_set (map (\<lambda>i. \<lparr>essay_set = gr ! i, ref = i\<rparr>) trn)"
  let ?tst_es = "groupby_essay_set (map (\<lambda>i. \<lparr>essay_set = gr ! i, ref = i\<rparr>) tst)"
  let ?F = "\<lambda>e (w::('p, 'r) world). case get_group_ref ?trn_es e of
               Inl err \<Rightarrow> (Inl err, w)
             | Inr train_idx \<Rightarrow>
             (case get_group_ref ?tst_es e of
                Inl err \<Rightarrow> (Inl err, w)
              | Inr test_idx \<Rightarrow> train_and_predict self train_idx test_idx w)"
  let ?es = "group_labels gr tst"
  have F: "?F e w = train_and_predict self (group_rows gr trn e) (group_rows gr tst e) w"
    if "e \<in> set ?es" for e and w :: "('p, 'r) world"
  proof -
    have "e \<in> (\<lambda>i. gr ! i) ` set tst" using that by auto
    then show ?thesis using sub group_step by blast
  qed
  have ok: "\<exists>v. fst (?F e w) = Inr v \<and> map idx v = group_rows gr tst e"
    if "e \<in> set ?es" for e and w :: "('p, 'r) world"
    unfolding F [OF that]
    by (rule train_and_predict_Inr [OF rdy]) (use trn tst in auto)
  have tr: "(\<exists>v. fst (?F e w) = Inr v) \<and>
      trained_on (snd (?F e w)) = trained_on w @ [(group_rows gr trn e, group_rows gr tst e)]"
    if "e \<in> set ?es" for e and w :: "('p, 'r) world"
    using ok [OF that, of w] train_and_predict_trace unfolding F [OF that] by blast
  obtain vs where vs: "fst (for_each ?F ?es w) = Inr vs"
      "list_all2 (\<lambda>e v. map idx v = group_rows gr tst e) ?es vs"
    using for_each_Inr [of ?es ?F "\<lambda>e v. map idx v = group_rows gr tst e" w] ok by blast
  have tr': "trained_on (snd (for_each ?F ?es w)) = trained_on w @
        map (\<lambda>e. (group_rows gr trn e, group_rows gr tst e)) ?es"
    by (rule for_each_trace) (use tr in blast)
  have "set ?es = (\<lambda>i. gr ! i) ` set tst" by simp
  then have "?es \<noteq> []" using ne by (metis image_is_empty set_empty)
  then have "vs \<noteq> []" using vs(2) by (auto simp: list_all2_Nil2)
  obtain w' where w': "for_each ?F ?es w = (Inr vs, w')"
    using vs(1) by (cases "for_each ?F ?es w") auto
  have "predict_groups self ?trn_es ?tst_es ?es w = (Inr (concat vs), w')"
    using w' \<open>vs \<noteq> []\<close> by (simp add: predict_groups_def pd_concat_def)
  moreover have "map idx (concat vs) = concat (map (group_rows gr tst) ?es)"
    using map_idx_concat [OF vs(2)] .
  moreover have "trained_on w' = trained_on w @
        map (\<lambda>e. (group_rows gr trn e, group_rows gr tst e)) ?es"
    using tr' w' by simp
  ultimately show ?thesis by blast
qed

subsection \<open>What a successful construction establishes\<close>

lemma count_per_essay_set_Inr:
  assumes "count_per_essay_set self k rows = Inr cdf"
  shows "(\<forall>i \<in> set rows. i < length (self_keys self)) \<and> rows \<noteq> []"
  using assms
  by (auto simp: count_per_essay_set_def iloc_def groupby_essay_set_def Let_def
      split: sum.splits if_splits)

lemma fold_counts_Inr:
  assumes "fold_counts self part = Inr tc"
  shows "self_folds self \<noteq> [] \<and>
    (\<forall>f \<in> set (self_folds self). (\<forall>i \<in> set (part f). i < length (self_keys self)) \<and> part f \<noteq> [])"
proof -
  obtain frames where fr:
    "collect (map (\<lambda>(k, f). count_per_essay_set self k (part f)) (enumerate 0 (self_folds self))) = Inr frames"
    and "pd_concat frames = Inr tc"
    using assms by (auto simp: fold_counts_def split: sum.splits)
  then have "frames \<noteq> []" by (auto simp: pd_concat_def split: if_splits)
  have eq: "map (\<lambda>(k, f). count_per_essay_set self k (part f)) (enumerate 0 (self_folds self)) = map Inr frames"
    using collect_Inr_D [OF fr] .
  then have "self_folds self \<noteq> []" using \<open>frames \<noteq> []\<close> by auto
  moreover have "(\<forall>i \<in> set (part f). i < length (self_keys self)) \<and> part f \<noteq> []"
    if mem: "f \<in> set (self_folds self)" for f
  proof -
    obtain k where k: "k < length (self_folds self)" "self_folds self ! k = f"
      using mem by (meson in_set_conv_nth)
    have "length frames = length (self_folds self)"
      using arg_cong [OF eq, of length] by simp
    have "map (\<lambda>(k, f). count_per_essay_set self k (part f)) (enumerate 0 (self_folds self)) ! k
        = map Inr frames ! k"
      using eq by simp
    then have "count_per_essay_set self k (part f) = Inr (frames ! k)"
      using k \<open>length frames = length (self_folds self)\<close> by (simp add: nth_enumerate_eq)
    then show ?thesis by (rule count_per_essay_set_Inr)
  qed
  ultimately show ?thesis by blast
qed

lemma analyze_Inr:
  assumes "analyze_cross_predict_structure self = Inr df"
  shows "self_folds self \<noteq> [] \<and>
    (\<forall>f \<in> set (self_folds self).
       (\<forall>i \<in> set (train f). i < length (self_keys self)) \<and> train f \<noteq> [] \<and>
       (\<forall>i \<in> set (test f). i < length (self_keys self)) \<and> test f \<noteq> [])"
proof -
  obtain tc sc where "fold_counts self train = Inr tc" "fold_counts self test = Inr sc"
    using assms by (auto simp: analyze_cross_predict_structure_def split: sum.splits)
  then show ?thesis
    using fold_counts_Inr [of self train tc] fold_counts_Inr [of self test sc] by blast
qed

lemma init_Inr:
  assumes "fst (CrossPredict_init lib data Learner hp n_fold verbose w) = Inr self"
  shows "self_data self = data \<and> self_params self = hp \<and> self_Learner self = Learner \<and>
    self_keys self = keys_of data \<and> length (data_group data) = length (data_y data) \<and>
    fst (StratifiedKFold_split lib n_fold (data_X data) (data_group data) (np_random_seed lib 0))
      = Inr (self_folds self) \<and>
    (\<exists>df. analyze_cross_predict_structure self = Inr df)"
  using assms
  by (auto simp: CrossPredict_init_def make_keys_def Let_def split: prod.splits sum.splits if_splits)

lemma length_keys_of: "length (keys_of d) = length (data_y d)"
  by (simp add: keys_of_def)

lemma init_ready:
  assumes "fst (CrossPredict_init lib data Learner hp n_fold verbose w) = Inr self"
    and "length (data_X data) = length (data_y data)"
    and "one_prediction_per_row Learner"
  shows "ready self"
  using init_Inr [OF assms(1)] assms(2,3) by (simp add: ready_def)

lemma init_folds:
  assumes "fst (CrossPredict_init lib data Learner hp n_fold verbose w) = Inr self"
  shows "self_folds self \<noteq> [] \<and>
    (\<forall>f \<in> set (self_folds self).
       (\<forall>i \<in> set (train f). i < length (data_y data)) \<and> train f \<noteq> [] \<and>
       (\<forall>i \<in> set (test f). i < length (data_y data)) \<and> test f \<noteq> [])"
proof -
  obtain df where "analyze_cross_predict_structure self = Inr df"
    using init_Inr [OF assms] by blast
  moreover have "length (self_keys self) = length (data_y data)"
    using init_Inr [OF assms] by (simp add: length_keys_of)
  ultimately show ?thesis using analyze_Inr [of self df] by simp
qed

subsection \<open>One fold\<close>

lemma one_fold_unfold:
  fixes self :: "('x, 'y, 'g::linorder, 'p, 'v) CrossPredict" and w :: "('p, 'r) world"
  defines "gr \<equiv> data_group (self_data self)"
  assumes ks: "self_keys self = keys_of (self_data self)"
    and k: "k < length (self_folds self)"
    and trn: "\<forall>i \<in> set (train (self_folds self ! k)). i < length (data_y (self_data self))"
    and tst: "\<forall>i \<in> set (test (self_folds self ! k)). i < length (data_y (self_data self))"
  shows "train_and_predict_one_fold self k w =
    (if (\<lambda>i. gr ! i) ` set (test (self_folds self ! k)) \<noteq> (\<lambda>i. gr ! i) ` set (train (self_folds self ! k))
     then (Inl (AssertionError None), w)
     else predict_groups self
        (groupby_essay_set (map (\<lambda>i. \<lparr>essay_set = gr ! i, ref = i\<rparr>) (train (self_folds self ! k))))
        (groupby_essay_set (map (\<lambda>i. \<lparr>essay_set = gr ! i, ref = i\<rparr>) (test (self_folds self ! k))))
        (group_labels gr (test (self_folds self ! k))) w)"
proof -
  have 1: "iloc (self_keys self) (train (self_folds self ! k)) =
      Inr (map (\<lambda>i. \<lparr>essay_set = gr ! i, ref = i\<rparr>) (train (self_folds self ! k)))"
    unfolding ks gr_def by (rule iloc_keys_of [OF trn])
  have 2: "iloc (self_keys self) (test (self_folds self ! k)) =
      Inr (map (\<lambda>i. \<lparr>essay_set = gr ! i, ref = i\<rparr>) (test (self_folds self ! k)))"
    unfolding ks gr_def by (rule iloc_keys_of [OF tst])
  show ?thesis
    unfolding train_and_predict_one_fold_def Let_def 1 2 sum.case groupby_iloc_keys
    using k by simp
qed

subsection \<open>The small harnesses\<close>

lemma analyze_ex_uneven:
  "analyze_cross_predict_structure ex_uneven = Inr [(0, 1, 2, 2), (1, 1, 2, 2)]"
  by code_simp

lemma analyze_ex_even:
  "analyze_cross_predict_structure ex_even = Inr [(0, 1, 1, 1), (0, 2, 1, 1), (1, 1, 1, 1), (1, 2, 1, 1)]"
  by code_simp

lemma init_ex_uneven:
  "fst (CrossPredict_init (ex_libs ex_folds_uneven) ex_data_uneven ex_Learner 0 2 0 ex_world) = Inr ex_uneven"
proof -
  have "make_keys ex_data_uneven = Inr (keys_of ex_data_uneven)"
    by (simp add: make_keys_def ex_data_uneven_def)
  then show ?thesis
    using analyze_ex_uneven
    by (simp add: CrossPredict_init_def ex_libs_def ex_uneven_def)
qed

lemma init_ex_even:
  "fst (CrossPredict_init (ex_libs ex_folds_even) ex_data_even ex_Learner 0 2 0 ex_world) = Inr ex_even"
proof -
  have "make_keys ex_data_even = Inr (keys_of ex_data_even)"
    by (simp add: make_keys_def ex_data_even_def)
  then show ?thesis
    using analyze_ex_even
    by (simp add: CrossPredict_init_def ex_libs_def ex_even_def)
qed

lemma ex_Learner_contract: "one_prediction_per_row ex_Learner"
  by (simp add: one_prediction_per_row_def ex_Learner_def)

subsection \<open>Hyperparameter objects\<close>

lemma runs_on_copies_refl: "runs_on_copies a w w"
  by (simp add: runs_on_copies_def)

lemma runs_on_copies_trans:
  assumes "runs_on_copies a w w1" and "runs_on_copies a w1 w2"
  shows "runs_on_copies a w w2"
  unfolding runs_on_copies_def
proof
  assume a: "a < length (heap w)"
  obtain hs cs where 1: "heap w1 = heap w @ hs" "calls w1 = calls w @ cs"
    "\<forall>c \<in> set cs. given_copy a w c"
    using assms(1) a by (auto simp: runs_on_copies_def)
  have a1: "a < length (heap w1)" using a 1(1) by simp
  obtain hs' cs' where 2: "heap w2 = heap w1 @ hs'" "calls w2 = calls w1 @ cs'"
    "\<forall>c \<in> set cs'. given_copy a w1 c"
    using assms(2) a1 by (auto simp: runs_on_copies_def)
  have same: "heap w1 ! a = heap w ! a" using a 1(1) by (simp add: nth_append)
  have later: "given_copy a w c" if "given_copy a w1 c" for c
    using that same 1(1) by (auto simp: given_copy_def split: obj.splits)
  have "heap w2 = heap w @ (hs @ hs')" "calls w2 = calls w @ (cs @ cs')"
    using 1 2 by simp_all
  moreover have "\<forall>c \<in> set (cs @ cs'). given_copy a w c"
    using 1(3) 2(3) later by auto
  ultimately show "\<exists>hs cs. heap w2 = heap w @ hs \<and> calls w2 = calls w @ cs \<and>
      (\<forall>c \<in> set cs. given_copy a w c)"
    by blast
qed

lemma train_and_predict_copies:
  "runs_on_copies (self_params self) w (snd (train_and_predict self tr ts w))"
proof -
  consider "snd (train_and_predict self tr ts w) = w"
    | hs where "snd (train_and_predict self tr ts w) =
      w\<lparr>heap := heap w @ hs,
        calls := calls w @ [\<lparr>c_addr = (case heap w ! self_params self of
                                          Atomic v \<Rightarrow> self_params self
                                        | Compound v \<Rightarrow> length (heap w)),
                              c_params = value_of (heap w ! self_params self),
                              c_train = tr, c_test = ts\<rparr>]\<rparr>"
    using train_and_predict_world [of self tr ts w] by blast
  then show ?thesis
  proof cases
    case 1
    then show ?thesis by (simp add: runs_on_copies_refl)
  next
    case 2
    then show ?thesis
      by (auto simp: runs_on_copies_def given_copy_def split: obj.splits)
  qed
qed

lemma for_each_copies:
  assumes "\<And>x w. x \<in> set xs \<Longrightarrow> runs_on_copies a w (snd (f x w))"
  shows "runs_on_copies a w (snd (for_each f xs w))"
  using assms runs_on_copies_refl runs_on_copies_trans
  by (rule for_each_rel [where R = "runs_on_copies a"])

lemma predict_groups_copies:
  fixes self :: "('x, 'y, 'g::linorder, 'p, 'v) CrossPredict" and w :: "('p, 'r) world"
  shows "runs_on_copies (self_params self) w (snd (predict_groups self trn_es tst_es essays w))"
proof -
  let ?F = "\<lambda>e (w :: ('p, 'r) world). case get_group_ref trn_es e of
               Inl err \<Rightarrow> (Inl err, w)
             | Inr train_idx \<Rightarrow>
             (case get_group_ref tst_es e of
                Inl err \<Rightarrow> (Inl err, w)
              | Inr test_idx \<Rightarrow> train_and_predict self train_idx test_idx w)"
  have "runs_on_copies (self_params self) w (snd (?F e w))" for e and w :: "('p, 'r) world"
    by (auto simp: runs_on_copies_refl train_and_predict_copies split: sum.splits)
  then have "runs_on_copies (self_params self) w (snd (for_each ?F essays w))"
    by (intro for_each_copies)
  then show ?thesis
    by (auto simp: predict_groups_def split: prod.splits sum.splits)
qed

lemma one_fold_copies:
  "runs_on_copies (self_params self) w (snd (train_and_predict_one_fold self k w))"
  by (auto simp: train_and_predict_one_fold_def Let_def runs_on_copies_refl predict_groups_copies
      split: sum.splits)

lemma cross_predict_copies:
  "runs_on_copies (self_params self) w (snd (cross_predict self w))"
proof -
  have "runs_on_copies (self_params self) w
      (snd (for_each (train_and_predict_one_fold self) [0..<length (self_folds self)] w))"
    by (intro for_each_copies one_fold_copies)
  then show ?thesis
    by (auto simp: cross_predict_def Let_def split: prod.splits sum.splits)
qed

lemma cheat_copies:
  "runs_on_copies (self_params self) w (snd (cheat self w))"
  by (simp add: cheat_def Let_def predict_groups_copies)

subsection \<open>The outcome of one fold\<close>

lemma one_fold_cases:
  fixes self :: "('x, 'y, 'g::linorder, 'p, 'v) CrossPredict" and w :: "('p, 'r) world"
  assumes init: "fst (CrossPredict_init lib data Learner hp n_fold verbose w0) = Inr self"
    and k: "k < length (self_folds self)"
  shows "if (\<lambda>i. data_group data ! i) ` set (train (self_folds self ! k)) =
            (\<lambda>i. data_group data ! i) ` set (test (self_folds self ! k))
         then length (data_X data) = length (data_y data) \<and> one_prediction_per_row Learner \<longrightarrow>
           (\<exists>frame w'. train_and_predict_one_fold self k w = (Inr frame, w') \<and>
              trained_on w' = trained_on w @
                map (\<lambda>e. (group_rows (data_group data) (train (self_folds self ! k)) e,
                          group_rows (data_group data) (test (self_folds self ! k)) e))
                  (group_labels (data_group data) (test (self_folds self ! k))) \<and>
              map idx frame = concat (map (group_rows (data_group data) (test (self_folds self ! k)))
                  (group_labels (data_group data) (test (self_folds self ! k)))))
         else train_and_predict_one_fold self k w = (Inl (AssertionError None), w)"
proof -
  let ?trn = "train (self_folds self ! k)" and ?tst = "test (self_folds self ! k)"
  have d: "self_data self = data" and ks: "self_keys self = keys_of (self_data self)"
    using init_Inr [OF init] by simp_all
  have f: "self_folds self ! k \<in> set (self_folds self)" using k by simp
  have trn: "\<forall>i \<in> set ?trn. i < length (data_y (self_data self))"
    and tst: "\<forall>i \<in> set ?tst. i < length (data_y (self_data self))"
    and ne: "?tst \<noteq> []"
    using init_folds [OF init] f d by blast+
  note unf = one_fold_unfold [OF ks k trn tst, of w, unfolded d]
  show ?thesis
  proof (cases "(\<lambda>i. data_group data ! i) ` set ?trn = (\<lambda>i. data_group data ! i) ` set ?tst")
    case False
    then show ?thesis using unf by auto
  next
    case True
    have "\<exists>frame w'. train_and_predict_one_fold self k w = (Inr frame, w') \<and>
              trained_on w' = trained_on w @
                map (\<lambda>e. (group_rows (data_group data) ?trn e, group_rows (data_group data) ?tst e))
                  (group_labels (data_group data) ?tst) \<and>
              map idx frame = concat (map (group_rows (data_group data) ?tst)
                  (group_labels (data_group data) ?tst))"
      if "length (data_X data) = length (data_y data)" "one_prediction_per_row Learner"
    proof -
      have rdy: "ready self" using init_ready [OF init that] .
      have sub: "(\<lambda>i. data_group (self_data self) ! i) ` set ?tst
          \<subseteq> (\<lambda>i. data_group (self_data self) ! i) ` set ?trn"
        using True d by simp
      show ?thesis
        using predict_groups_Inr [OF rdy trn tst sub ne, of w] unf True d by auto
    qed
    then show ?thesis using True by simp
  qed
qed

subsection \<open>Restoring the row order\<close>

lemma sorted_mset_upt:
  assumes "sorted ys" and "mset ys = mset [0..<n]"
  shows "ys = [0..<n]"
proof -
  have "sort [0..<n] = ys"
    using assms by (intro properties_for_sort) simp_all
  then show ?thesis by (simp add: sorted_sort_id)
qed

lemma map_idx_sort_values:
  assumes "mset (map idx preds) = mset [0..<n]"
  shows "map idx (sort_values_idx preds) = [0..<n]"
proof (rule sorted_mset_upt)
  show "sorted (map idx (sort_values_idx preds))"
    by (simp add: sort_values_idx_def)
  show "mset (map idx (sort_values_idx preds)) = mset [0..<n]"
    using assms by (simp add: sort_values_idx_def)
qed

lemma mset_concat_fold_groups:
  fixes gr :: "('g::linorder) list"
  shows "mset (concat (map (\<lambda>k. concat (map (group_rows gr (test (fs ! k))) (group_labels gr (test (fs ! k)))))
      [0..<length fs])) = mset (concat (map test fs))"
proof -
  have "mset (concat (map (group_rows gr rows) (group_labels gr rows))) = mset rows" for rows
    using mset_concat_groups [of "\<lambda>i. gr ! i" rows] by simp
  then have "mset (concat (map (\<lambda>k. concat (map (group_rows gr (test (fs ! k))) (group_labels gr (test (fs ! k)))))
      [0..<length fs])) = (\<Sum>k\<leftarrow>[0..<length fs]. mset (test (fs ! k)))"
    by (simp add: mset_concat comp_def)
  also have "\<dots> = (\<Sum>f\<leftarrow>fs. mset (test f))"
  proof -
    have "map (\<lambda>k. mset (test (fs ! k))) [0..<length fs] = map (\<lambda>f. mset (test f)) fs"
      by (rule nth_equalityI) simp_all
    then show ?thesis by simp
  qed
  finally show ?thesis by (simp add: mset_concat comp_def)
qed

subsection \<open>Cross-prediction\<close>

lemma cross_predict_cases:
  fixes self :: "('x, 'y, 'g::linorder, 'p, 'v) CrossPredict" and w :: "('p, 'r) world"
  assumes init: "fst (CrossPredict_init lib data Learner hp n_fold verbose w0) = Inr self"
    and len: "length (data_X data) = length (data_y data)"
    and learner: "one_prediction_per_row Learner"
    and part: "mset (concat (map test (self_folds self))) = mset [0..<length (data_y data)]"
  shows "if \<forall>f \<in> set (self_folds self).
              (\<lambda>i. data_group data ! i) ` set (train f) = (\<lambda>i. data_group data ! i) ` set (test f)
         then \<exists>out w'. cross_predict self w = (Inr out, w') \<and>
                map idx out = [0..<length (data_y data)]
         else fst (cross_predict self w) = Inl (AssertionError None)"
proof -
  let ?gr = "data_group data"
  let ?fs = "self_folds self"
  let ?kr = "[0..<length ?fs]"
  let ?eq = "\<lambda>f. (\<lambda>i. ?gr ! i) ` set (train f) = (\<lambda>i. ?gr ! i) ` set (test f)"
  let ?rows = "\<lambda>k. concat (map (group_rows ?gr (test (?fs ! k))) (group_labels ?gr (test (?fs ! k))))"
  have ne: "?fs \<noteq> []" using init_folds [OF init] by blast
  note cases = one_fold_cases [OF init]
  show ?thesis
  proof (cases "\<forall>f \<in> set ?fs. ?eq f")
    case True
    have ok: "\<exists>v. fst (train_and_predict_one_fold self k w) = Inr v \<and> map idx v = ?rows k"
      if "k \<in> set ?kr" for k and w :: "('p, 'r) world"
    proof -
      have k: "k < length ?fs" using that by simp
      then have "?eq (?fs ! k)" using True by simp
      then show ?thesis using cases [OF k, of w] len learner by auto
    qed
    obtain vs where vs: "fst (for_each (train_and_predict_one_fold self) ?kr w) = Inr vs"
        "list_all2 (\<lambda>k v. map idx v = ?rows k) ?kr vs"
      using for_each_Inr [of ?kr "train_and_predict_one_fold self" "\<lambda>k v. map idx v = ?rows k" w] ok
      by blast
    obtain w' where w': "for_each (train_and_predict_one_fold self) ?kr w = (Inr vs, w')"
      using vs(1) by (cases "for_each (train_and_predict_one_fold self) ?kr w") auto
    have "vs \<noteq> []" using vs(2) ne by (auto simp: list_all2_Nil2)
    then have cp: "cross_predict self w = (Inr (sort_values_idx (concat vs)), w')"
      using w' by (simp add: cross_predict_def pd_concat_def)
    have "map idx (concat vs) = concat (map ?rows ?kr)"
      using map_idx_concat [OF vs(2)] .
    then have "mset (map idx (concat vs)) = mset (concat (map test ?fs))"
      using mset_concat_fold_groups [of ?gr ?fs] by simp
    then have "map idx (sort_values_idx (concat vs)) = [0..<length (data_y data)]"
      using part by (intro map_idx_sort_values) simp
    then show ?thesis using cp True by auto
  next
    case False
    then obtain f where f: "f \<in> set ?fs" "\<not> ?eq f" by blast
    then obtain k where k: "k < length ?fs" "?fs ! k = f" by (meson in_set_conv_nth)
    have alt: "(\<exists>v. fst (train_and_predict_one_fold self j w) = Inr v) \<or>
        fst (train_and_predict_one_fold self j w) = Inl (AssertionError None)"
      if "j \<in> set ?kr" for j and w :: "('p, 'r) world"
    proof -
      have j: "j < length ?fs" using that by simp
      show ?thesis using cases [OF j, of w] len learner by (auto split: if_splits)
    qed
    have bad: "\<exists>j \<in> set ?kr. \<forall>w :: ('p, 'r) world.
        fst (train_and_predict_one_fold self j w) = Inl (AssertionError None)"
    proof (intro bexI [of _ k] allI)
      fix w :: "('p, 'r) world"
      show "fst (train_and_predict_one_fold self k w) = Inl (AssertionError None)"
        using cases [OF k(1), of w] f(2) k(2) by simp
      show "k \<in> set ?kr" using k(1) by simp
    qed
    have "fst (for_each (train_and_predict_one_fold self) ?kr w) = Inl (AssertionError None)"
      using for_each_Inl [of ?kr "train_and_predict_one_fold self" "AssertionError None" w] alt bad
      by blast
    then have "fst (cross_predict self w) = Inl (AssertionError None)"
      by (auto simp: cross_predict_def split: prod.splits sum.splits)
    then show ?thesis using False by auto
  qed
qed

subsection \<open>Rounding keeps the sign\<close>

lemma pow2_powi: "pow2 e = 2 powi e"
  by (simp add: pow2_def power_int_def power_inverse inverse_eq_divide power_one_over)

lemma pow2_pos: "0 < pow2 e"
  by (simp add: pow2_def)

lemma pow2_add: "pow2 (a + b) = pow2 a * pow2 b"
  by (simp add: pow2_powi power_int_add)

lemma round_half_even_ge: "\<lfloor>q\<rfloor> \<le> round_half_even q"
  by (simp add: round_half_even_def Let_def)

lemma binade_lower:
  assumes "0 < q"
  shows "pow2 (binade q) \<le> q"
proof -
  obtain a b where ab: "quotient_of q = (a, b)" by (cases "quotient_of q")
  have b: "0 < b" using ab by (rule quotient_of_denom_pos)
  have q: "q = of_int a / of_int b" using ab by (rule quotient_of_div)
  have a: "0 < a" using assms b q by (simp add: zero_less_divide_iff)
  let ?la = "bitlen a" and ?lb = "bitlen b"
  have la: "1 \<le> ?la" and lb: "1 \<le> ?lb"
    using a b bitlen_eq_zero_iff [of a] bitlen_eq_zero_iff [of b] bitlen_nonneg [of a] bitlen_nonneg [of b]
    by linarith+
  have "2 ^ nat (?la - 1) \<le> a" using bitlen_bounds [OF a] by simp
  then have "(of_int (2 ^ nat (?la - 1)) :: rat) \<le> of_int a" by (simp only: of_int_le_iff)
  then have lo: "pow2 (?la - 1) \<le> of_int a" using la by (simp add: pow2_def)
  have "b < 2 ^ nat ?lb" using bitlen_bounds [OF b] by simp
  then have "(of_int b :: rat) < of_int (2 ^ nat ?lb)" by (simp only: of_int_less_iff)
  then have hi: "of_int b < pow2 ?lb" using lb by (simp add: pow2_def)
  have "pow2 (?la - ?lb - 1) * of_int b \<le> pow2 (?la - ?lb - 1) * pow2 ?lb"
    using hi pow2_pos [of "?la - ?lb - 1"] by (simp add: less_imp_le)
  also have "\<dots> = pow2 (?la - 1)"
    using pow2_add [of "?la - ?lb - 1" ?lb] by simp
  finally have "pow2 (?la - ?lb - 1) * of_int b \<le> of_int a" using lo by simp
  then have low: "pow2 (?la - ?lb - 1) \<le> q"
    using b q by (simp add: pos_le_divide_eq)
  show ?thesis
    using low by (simp add: binade_def ab Let_def)
qed

lemma f64_pos:
  assumes "0 < q"
  shows "0 < f64 q"
proof -
  let ?e = "binade q"
  have "pow2 ?e * pow2 (52 - ?e) \<le> q * pow2 (52 - ?e)"
    using binade_lower [OF assms] pow2_pos [of "52 - ?e"] by simp
  moreover have "pow2 ?e * pow2 (52 - ?e) = pow2 52"
    using pow2_add [of ?e "52 - ?e"] by simp
  moreover have "(1::rat) \<le> pow2 52" by (simp add: pow2_def)
  ultimately have "1 \<le> q * pow2 (52 - ?e)" by simp
  then have "1 \<le> \<lfloor>q * pow2 (52 - ?e)\<rfloor>" by (simp add: le_floor_iff)
  then have "0 < round_half_even (q * pow2 (52 - ?e))"
    using round_half_even_ge [of "q * pow2 (52 - ?e)"] by linarith
  then have "0 < (of_int (round_half_even (q * pow2 (52 - ?e))) :: rat) * pow2 (?e - 52)"
    using pow2_pos [of "?e - 52"] by simp
  then show ?thesis using assms by (simp add: f64_def Let_def)
qed

subsection \<open>The inner join\<close>

lemma merge_inner_Nil: "merge_inner [] r = []"
  by (simp add: merge_inner_def)

lemma merge_inner_Cons:
  "merge_inner ((k, e, tc) # l) r =
     map (\<lambda>(k', e', sc). (k, e, tc, sc)) (filter (\<lambda>(k', e', sc). k' = k \<and> e' = e) r) @ merge_inner l r"
  by (simp add: merge_inner_def)

lemma set_matches:
  "set (map (\<lambda>(k', e', sc). (k, e, tc, sc)) (filter (\<lambda>(k', e', sc). k' = k \<and> e' = e) r))
     = {(k, e, tc, sc) | sc. (k, e, sc) \<in> set r}"
  by (induction r) auto

lemma mem_merge_inner:
  "(k, e, tc, sc) \<in> set (merge_inner l r) \<longleftrightarrow> (k, e, tc) \<in> set l \<and> (k, e, sc) \<in> set r"
proof (induction l)
  case Nil
  then show ?case by (simp add: merge_inner_Nil)
next
  case (Cons x l)
  obtain k0 e0 tc0 where x: "x = (k0, e0, tc0)" by (cases x)
  show ?case
    unfolding x merge_inner_Cons set_append Un_iff set_matches Cons.IH
    by auto
qed

lemma set_merge_inner:
  "set (merge_inner l r) = {(k, e, tc, sc). (k, e, tc) \<in> set l \<and> (k, e, sc) \<in> set r}"
  using mem_merge_inner [of _ _ _ _ l r] by auto

lemma pairs_merge_inner:
  "(\<lambda>(k, e, tc, sc). (k, e)) ` set (merge_inner l r) =
     (\<lambda>(k, e, c). (k, e)) ` set l \<inter> (\<lambda>(k, e, c). (k, e)) ` set r"
proof (rule set_eqI)
  fix p :: "nat \<times> 'a"
  obtain k e where p: "p = (k, e)" by (cases p)
  have "p \<in> (\<lambda>(k, e, tc, sc). (k, e)) ` set (merge_inner l r) \<longleftrightarrow>
      (\<exists>tc sc. (k, e, tc, sc) \<in> set (merge_inner l r))"
    unfolding p by (force simp: image_iff)
  also have "\<dots> \<longleftrightarrow> (\<exists>tc. (k, e, tc) \<in> set l) \<and> (\<exists>sc. (k, e, sc) \<in> set r)"
    by (simp add: set_merge_inner)
  also have "\<dots> \<longleftrightarrow> p \<in> (\<lambda>(k, e, c). (k, e)) ` set l \<inter> (\<lambda>(k, e, c). (k, e)) ` set r"
    unfolding p by (force simp: image_iff)
  finally show "p \<in> (\<lambda>(k, e, tc, sc). (k, e)) ` set (merge_inner l r) \<longleftrightarrow>
      p \<in> (\<lambda>(k, e, c). (k, e)) ` set l \<inter> (\<lambda>(k, e, c). (k, e)) ` set r" .
qed

lemma merge_inner_filter_right:
  assumes "\<And>k e tc sc. (k, e, tc) \<in> set l \<Longrightarrow> (k, e, sc) \<in> set r \<Longrightarrow> Q (k, e, sc)"
  shows "merge_inner l (filter Q r) = merge_inner l r"
proof -
  have "filter (\<lambda>(k', e', sc). k' = k \<and> e' = e) (filter Q r) = filter (\<lambda>(k', e', sc). k' = k \<and> e' = e) r"
    if "(k, e, tc) \<in> set l" for k e tc
    using assms [OF that] by (auto intro!: filter_cong)
  then show ?thesis
    unfolding merge_inner_def
    by (intro arg_cong [where f = concat] map_cong) auto
qed

lemma merge_inner_filter_left:
  assumes "\<And>k e tc sc. (k, e, tc) \<in> set l \<Longrightarrow> (k, e, sc) \<in> set r \<Longrightarrow> P (k, e, tc)"
  shows "merge_inner (filter P l) r = merge_inner l r"
  using assms
proof (induction l)
  case Nil
  then show ?case by simp
next
  case (Cons x l)
  obtain k e tc where x: "x = (k, e, tc)" by (cases x)
  have IH: "merge_inner (filter P l) r = merge_inner l r"
    using Cons.IH Cons.prems by (meson list.set_intros(2))
  show ?case
  proof (cases "P x")
    case True
    then show ?thesis using IH by (simp add: x merge_inner_Cons)
  next
    case False
    have "\<And>sc. (k, e, sc) \<notin> set r"
      using Cons.prems [of k e tc] False x by auto
    then have "filter (\<lambda>(k', e', sc). k' = k \<and> e' = e) r = []"
      by (auto simp: filter_empty_conv)
    then show ?thesis using False IH by (simp add: x merge_inner_Cons)
  qed
qed

lemma merge_inner_restrict:
  fixes l r :: "(nat \<times> 'g \<times> nat) list"
  defines "both \<equiv> (\<lambda>(k, e, c). (k, e)) ` set l \<inter> (\<lambda>(k, e, c). (k, e)) ` set r"
  shows "merge_inner (filter (\<lambda>(k, e, c). (k, e) \<in> both) l) (filter (\<lambda>(k, e, c). (k, e) \<in> both) r)
    = merge_inner l r"
proof -
  have 1: "merge_inner l (filter (\<lambda>(k, e, c). (k, e) \<in> both) r) = merge_inner l r"
    by (rule merge_inner_filter_right) (force simp: both_def)
  have "merge_inner (filter (\<lambda>(k, e, c). (k, e) \<in> both) l) (filter (\<lambda>(k, e, c). (k, e) \<in> both) r)
      = merge_inner l (filter (\<lambda>(k, e, c). (k, e) \<in> both) r)"
    by (rule merge_inner_filter_left) (force simp: both_def)
  then show ?thesis using 1 by simp
qed

subsection \<open>The structural check\<close>

lemma analyze_unfold:
  assumes "fold_counts self train = Inr train_counts" and "fold_counts self test = Inr test_counts"
  shows "analyze_cross_predict_structure self =
    (let df = merge_inner train_counts test_counts
     in if flt (fdiv (max_ratio df) (min_ratio df)) tolerance then Inr df
        else Inl (AssertionError None))"
  using assms by (simp add: analyze_cross_predict_structure_def)

lemma pos_fin_float_of_count: "0 < n \<Longrightarrow> pos_fin (float_of_count n)"
  by (simp add: pos_fin_def float_of_count_def f64_pos)

lemma pos_fin_fdiv: "pos_fin x \<Longrightarrow> pos_fin y \<Longrightarrow> pos_fin (fdiv x y)"
  by (cases x; cases y) (simp_all add: pos_fin_def f64_pos)

lemma pos_fin_fmax2: "pos_fin x \<Longrightarrow> pos_fin y \<or> y = NaN \<Longrightarrow> pos_fin (fmax2 x y)"
  by (cases x; cases y) (auto simp: pos_fin_def)

lemma pos_fin_fmin2: "pos_fin x \<Longrightarrow> pos_fin y \<or> y = NaN \<Longrightarrow> pos_fin (fmin2 x y)"
  by (cases x; cases y) (auto simp: pos_fin_def)

lemma pos_fin_series_max:
  assumes "xs \<noteq> []" and "\<forall>x \<in> set xs. pos_fin x"
  shows "pos_fin (series_max xs)"
proof -
  have "pos_fin (foldr fmax2 xs NaN) \<or> (xs = [] \<and> foldr fmax2 xs NaN = NaN)"
    if "\<forall>x \<in> set xs. pos_fin x" for xs
    using that by (induction xs) (auto intro: pos_fin_fmax2)
  then show ?thesis using assms by (auto simp: series_max_def)
qed

lemma pos_fin_series_min:
  assumes "xs \<noteq> []" and "\<forall>x \<in> set xs. pos_fin x"
  shows "pos_fin (series_min xs)"
proof -
  have "pos_fin (foldr fmin2 xs NaN) \<or> (xs = [] \<and> foldr fmin2 xs NaN = NaN)"
    if "\<forall>x \<in> set xs. pos_fin x" for xs
    using that by (induction xs) (auto intro: pos_fin_fmin2)
  then show ?thesis using assms by (auto simp: series_min_def)
qed

lemma flt_fge: "pos_fin x \<Longrightarrow> flt x tolerance \<longleftrightarrow> \<not> fge x tolerance"
  by (cases x) (auto simp: pos_fin_def tolerance_def)

lemma groupby_nonempty:
  "(e, g) \<in> set (groupby_essay_set df) \<Longrightarrow> g \<noteq> []"
  by (auto simp: groupby_essay_set_def filter_empty_conv)

lemma count_per_essay_set_pos:
  assumes "count_per_essay_set self k rows = Inr cdf" and "(k', e, c) \<in> set cdf"
  shows "0 < c"
proof -
  obtain sub where "iloc (self_keys self) rows = Inr sub"
    and cdf: "cdf = sort_key (\<lambda>(k, e, c). e) (map (\<lambda>(e, g). (k, e, length g)) (groupby_essay_set sub))"
    using assms(1) by (auto simp: count_per_essay_set_def Let_def split: sum.splits if_splits)
  have "(k', e, c) \<in> set (map (\<lambda>(e, g). (k, e, length g)) (groupby_essay_set sub))"
    using assms(2) cdf by simp
  then obtain g where "(e, g) \<in> set (groupby_essay_set sub)" "c = length g"
    by auto
  then show ?thesis using groupby_nonempty by fastforce
qed

lemma fold_counts_pos:
  assumes "fold_counts self part = Inr tc" and "(k, e, c) \<in> set tc"
  shows "0 < c"
proof -
  obtain frames where fr:
    "collect (map (\<lambda>(k, f). count_per_essay_set self k (part f)) (enumerate 0 (self_folds self))) = Inr frames"
    and tc: "tc = concat frames"
    using assms(1) by (auto simp: fold_counts_def pd_concat_def split: sum.splits if_splits)
  have eq: "map (\<lambda>(k, f). count_per_essay_set self k (part f)) (enumerate 0 (self_folds self)) = map Inr frames"
    using collect_Inr_D [OF fr] .
  obtain frame where frame: "frame \<in> set frames" "(k, e, c) \<in> set frame"
    using assms(2) tc by auto
  then have "Inr frame \<in> set (map (\<lambda>(k, f). count_per_essay_set self k (part f)) (enumerate 0 (self_folds self)))"
    unfolding eq by simp
  then obtain j f where "count_per_essay_set self j (part f) = Inr frame"
    by auto
  then show ?thesis using frame(2) count_per_essay_set_pos by blast
qed

lemma ratios_pos_fin:
  assumes tc: "fold_counts self train = Inr train_counts"
    and sc: "fold_counts self test = Inr test_counts"
  shows "\<forall>x \<in> set (ratios_of (merge_inner train_counts test_counts)). pos_fin x"
proof
  fix x assume "x \<in> set (ratios_of (merge_inner train_counts test_counts))"
  then obtain k e a b where row: "(k, e, a, b) \<in> set (merge_inner train_counts test_counts)"
    and x: "x = fdiv (float_of_count a) (float_of_count b)"
    by (auto simp: ratios_of_def)
  have "(k, e, a) \<in> set train_counts" "(k, e, b) \<in> set test_counts"
    using row by (simp_all add: mem_merge_inner)
  then have "0 < a" "0 < b"
    using fold_counts_pos [OF tc] fold_counts_pos [OF sc] by blast+
  then show "pos_fin x"
    unfolding x by (intro pos_fin_fdiv pos_fin_float_of_count)
qed

lemma spread_pos_fin:
  assumes tc: "fold_counts self train = Inr train_counts"
    and sc: "fold_counts self test = Inr test_counts"
    and df: "df = merge_inner train_counts test_counts" "df \<noteq> []"
  shows "pos_fin (fdiv (max_ratio df) (min_ratio df))"
proof -
  have ne: "ratios_of df \<noteq> []" using df(2) by (simp add: ratios_of_def)
  have all: "\<forall>x \<in> set (ratios_of df). pos_fin x"
    using ratios_pos_fin [OF tc sc] df(1) by simp
  show ?thesis
    unfolding max_ratio_def min_ratio_def
    by (intro pos_fin_fdiv pos_fin_series_max pos_fin_series_min ne all)
qed

lemma analyze_verdict:
  assumes tc: "fold_counts self train = Inr train_counts"
    and sc: "fold_counts self test = Inr test_counts"
    and df: "df = merge_inner train_counts test_counts" "df \<noteq> []"
  shows "analyze_cross_predict_structure self =
    (if fge (fdiv (max_ratio df) (min_ratio df)) tolerance then Inl (AssertionError None) else Inr df)"
  using analyze_unfold [OF tc sc] flt_fge [OF spread_pos_fin [OF tc sc df]] df(1)
  by (simp add: Let_def)

lemma analyze_empty_join:
  assumes "fold_counts self train = Inr train_counts"
    and "fold_counts self test = Inr test_counts"
    and "merge_inner train_counts test_counts = []"
  shows "analyze_cross_predict_structure self = Inl (AssertionError None)"
  using analyze_unfold [OF assms(1,2)] assms(3)
  by (simp add: max_ratio_def min_ratio_def ratios_of_def series_max_def series_min_def)

lemma init_verdict:
  fixes self :: "('x, 'y, 'g::linorder, 'p, 'v) CrossPredict" and w :: "('p, 'r) world"
  assumes split: "fst (StratifiedKFold_split lib n_fold (data_X data) (data_group data)
        (np_random_seed lib 0)) = Inr folds"
    and len: "length (data_group data) = length (data_y data)"
    and self: "self = \<lparr>self_data = data, self_params = hp, self_Learner = Learner,
        self_verbose = verbose, self_folds = folds, self_keys = keys_of data\<rparr>"
    and tc: "fold_counts self train = Inr train_counts"
    and sc: "fold_counts self test = Inr test_counts"
    and df: "df = merge_inner train_counts test_counts"
  shows "(fst (CrossPredict_init lib data Learner hp n_fold verbose w) = Inl (AssertionError None))
      = (df = [] \<or> fge (fdiv (max_ratio df) (min_ratio df)) tolerance) \<and>
    (df \<noteq> [] \<and> \<not> fge (fdiv (max_ratio df) (min_ratio df)) tolerance \<longrightarrow>
       fst (CrossPredict_init lib data Learner hp n_fold verbose w) = Inr self \<and>
       analyze_cross_predict_structure self = Inr df)"
proof -
  have init: "fst (CrossPredict_init lib data Learner hp n_fold verbose w) =
      (case analyze_cross_predict_structure self of Inl e \<Rightarrow> Inl e | Inr d \<Rightarrow> Inr self)"
    using split len self
    by (auto simp: CrossPredict_init_def make_keys_def Let_def split: prod.splits sum.splits)
  show ?thesis
  proof (cases "df = []")
    case True
    then have "analyze_cross_predict_structure self = Inl (AssertionError None)"
      using analyze_empty_join [OF tc sc] df by simp
    then show ?thesis using True init by simp
  next
    case False
    show ?thesis
      unfolding init analyze_verdict [OF tc sc df False] using False by simp
  qed
qed

lemma counts_ex_skewed:
  "fold_counts ex_skewed train = Inr [(0, 1, 1), (0, 2, 1), (1, 1, 1), (1, 2, 2)] \<and>
   fold_counts ex_skewed test = Inr [(0, 1, 1), (0, 2, 2), (1, 1, 1), (1, 2, 1)]"
  by code_simp

lemma counts_ex_even:
  "fold_counts ex_even train = Inr [(0, 1, 1), (0, 2, 1), (1, 1, 1), (1, 2, 1)] \<and>
   fold_counts ex_even test = Inr [(0, 1, 1), (0, 2, 1), (1, 1, 1), (1, 2, 1)]"
  by code_simp

lemma counts_ex_uneven:
  "fold_counts ex_uneven train = Inr [(0, 1, 2), (1, 1, 2), (1, 2, 1)] \<and>
   fold_counts ex_uneven test = Inr [(0, 1, 2), (0, 2, 1), (1, 1, 2)]"
  by code_simp

lemma join_ex_skewed:
  "merge_inner [(0, 1, 1), (0, 2, 1), (1, 1, 1), (1, 2, 2)] [(0, 1, 1), (0, 2, 2), (1, 1, 1), (1, 2, 1)]
     = [(0::nat, 1::nat, 1, 1), (0, 2, 1, 2), (1, 1, 1, 1), (1, 2, 2, 1)]"
  by code_simp

lemma join_ex_even:
  "merge_inner [(0, 1, 1), (0, 2, 1), (1, 1, 1), (1, 2, 1)] [(0, 1, 1), (0, 2, 1), (1, 1, 1), (1, 2, 1)]
     = [(0::nat, 1::nat, 1, 1), (0, 2, 1, 1), (1, 1, 1, 1), (1, 2, 1, 1)]"
  by code_simp

lemma spread_ex_skewed:
  "fdiv (max_ratio [(0::nat, 1::nat, 1, 1), (0, 2, 1, 2), (1, 1, 1, 1), (1, 2, 2, 1)])
        (min_ratio [(0::nat, 1::nat, 1, 1), (0, 2, 1, 2), (1, 1, 1, 1), (1, 2, 2, 1)]) = Fin 4"
  by code_simp

lemma spread_ex_even:
  "fdiv (max_ratio [(0::nat, 1::nat, 1, 1), (0, 2, 1, 1), (1, 1, 1, 1), (1, 2, 1, 1)])
        (min_ratio [(0::nat, 1::nat, 1, 1), (0, 2, 1, 1), (1, 1, 1, 1), (1, 2, 1, 1)]) = Fin 1"
  by code_simp

lemma fge_tolerance: "fge (Fin 4) tolerance \<and> \<not> fge (Fin 1) tolerance"
  by code_simp

lemma counts_ex_disjoint:
  "fold_counts ex_disjoint train = Inr [(0, 1, 1), (1, 2, 1)] \<and>
   fold_counts ex_disjoint test = Inr [(0, 2, 1), (1, 1, 1)]"
  by code_simp

lemma join_ex_disjoint:
  "merge_inner [(0::nat, 1::nat, 1::nat), (1, 2, 1)] [(0, 2, 1), (1, 1, 1)] = []"
  by code_simp

lemma all_pairs_ex_uneven:
  "all_pairs_counts ex_uneven = [(0, 1, 2, 2), (0, 2, 0, 1), (1, 1, 2, 2), (1, 2, 1, 0)] \<and>
   fdiv (max_ratio (all_pairs_counts ex_uneven)) (min_ratio (all_pairs_counts ex_uneven)) = PosInf"
  by code_simp

subsection \<open>Where an exception comes from\<close>

lemma for_each_Inl_D:
  assumes "fst (for_each f xs w) = Inl e"
  shows "\<exists>x \<in> set xs. \<exists>w'. fst (f x w') = Inl e"
  using assms
proof (induction xs arbitrary: w)
  case Nil
  then show ?case by simp
next
  case (Cons x xs)
  show ?case
  proof (cases "f x w")
    case (Pair r w1)
    show ?thesis
    proof (cases r)
      case (Inl e')
      then have "fst (f x w) = Inl e" using Cons.prems Pair by simp
      then show ?thesis by auto
    next
      case (Inr v)
      then have "fst (for_each f xs w1) = Inl e"
        using Cons.prems Pair by (cases "for_each f xs w1") (auto split: sum.splits)
      then show ?thesis using Cons.IH by auto
    qed
  qed
qed

lemma collect_Inl_D: "collect rs = Inl e \<Longrightarrow> Inl e \<in> set rs"
proof (induction rs)
  case Nil
  then show ?case by simp
next
  case (Cons r rs)
  then show ?case by (cases r) (auto split: sum.splits)
qed

lemma train_and_predict_error:
  "fst (train_and_predict self tr ts w) = Inl e \<Longrightarrow> e \<in> {IndexError, KeyError, ValueError}"
  by (auto simp: train_and_predict_def select_rows_def essay_set_of_def prediction_frame_def
      deepcopy_def leave_in_def Let_def split: sum.splits prod.splits if_splits obj.splits)

lemma predict_groups_error:
  fixes self :: "('x, 'y, 'g::linorder, 'p, 'v) CrossPredict" and w :: "('p, 'r) world"
  assumes "fst (predict_groups self trn_es tst_es essays w) = Inl e"
  shows "e \<in> {IndexError, KeyError, ValueError}"
proof -
  let ?F = "\<lambda>e (w :: ('p, 'r) world). case get_group_ref trn_es e of
               Inl err \<Rightarrow> (Inl err, w)
             | Inr train_idx \<Rightarrow>
             (case get_group_ref tst_es e of
                Inl err \<Rightarrow> (Inl err, w)
              | Inr test_idx \<Rightarrow> train_and_predict self train_idx test_idx w)"
  have F: "fst (?F x w') = Inl e \<Longrightarrow> e \<in> {IndexError, KeyError, ValueError}"
    for x and w' :: "('p, 'r) world"
    using train_and_predict_error [of self _ _ w' e]
    by (auto simp: get_group_ref_def split: sum.splits option.splits)
  show ?thesis
  proof (cases "for_each ?F essays w")
    case (Pair r w1)
    show ?thesis
    proof (cases r)
      case (Inl e')
      then have "fst (for_each ?F essays w) = Inl e"
        using assms Pair by (simp add: predict_groups_def)
      then show ?thesis using for_each_Inl_D [of ?F essays w e] F by blast
    next
      case (Inr frames)
      then show ?thesis using assms Pair
        by (auto simp: predict_groups_def pd_concat_def split: if_splits)
    qed
  qed
qed

lemma one_fold_assertion:
  fixes self :: "('x, 'y, 'g::linorder, 'p, 'v) CrossPredict" and w :: "('p, 'r) world"
  assumes "train_and_predict_one_fold self k w = (Inl (AssertionError m), w')"
  shows "m = None \<and> w' = w"
proof -
  have pg: "predict_groups self trn_es tst_es essays w \<noteq> (Inl (AssertionError m), w')"
    for trn_es tst_es essays
    using predict_groups_error [of self trn_es tst_es essays w "AssertionError m"]
    by auto
  show ?thesis
    using assms pg
    by (auto simp: train_and_predict_one_fold_def iloc_def Let_def split: if_splits sum.splits)
qed

lemma cross_predict_assertion:
  fixes self :: "('x, 'y, 'g::linorder, 'p, 'v) CrossPredict" and w :: "('p, 'r) world"
  assumes "fst (cross_predict self w) = Inl (AssertionError m)"
  shows "m = None"
proof -
  let ?kr = "[0..<length (self_folds self)]"
  have "fst (for_each (train_and_predict_one_fold self) ?kr w) = Inl (AssertionError m)"
    using assms
    by (auto simp: cross_predict_def pd_concat_def Let_def split: prod.splits sum.splits if_splits)
  then have "\<exists>k \<in> set ?kr. \<exists>w1 :: ('p, 'r) world.
      fst (train_and_predict_one_fold self k w1) = Inl (AssertionError m)"
    by (rule for_each_Inl_D)
  then obtain k and w1 :: "('p, 'r) world"
    where "fst (train_and_predict_one_fold self k w1) = Inl (AssertionError m)"
    by blast
  then show ?thesis
    using one_fold_assertion [of self k w1 m "snd (train_and_predict_one_fold self k w1)"]
    by (metis prod.collapse)
qed

lemma count_per_essay_set_error:
  "count_per_essay_set self k rows = Inl e \<Longrightarrow> e \<in> {IndexError, ValueError}"
  by (auto simp: count_per_essay_set_def iloc_def Let_def split: sum.splits if_splits)

lemma fold_counts_error:
  assumes "fold_counts self part = Inl e"
  shows "e \<in> {IndexError, ValueError}"
proof (cases "collect (map (\<lambda>(k, f). count_per_essay_set self k (part f)) (enumerate 0 (self_folds self)))")
  case (Inl e')
  then have "e' = e" using assms by (simp add: fold_counts_def)
  then have "Inl e \<in> set (map (\<lambda>(k, f). count_per_essay_set self k (part f)) (enumerate 0 (self_folds self)))"
    using collect_Inl_D [OF Inl] by simp
  then obtain k f where "Inl e = count_per_essay_set self k (part f)"
    by auto
  then show ?thesis using count_per_essay_set_error [of self k "part f" e] by simp
next
  case (Inr frames)
  then show ?thesis using assms by (auto simp: fold_counts_def pd_concat_def split: if_splits)
qed

lemma analyze_assertion:
  assumes "analyze_cross_predict_structure self = Inl (AssertionError m)"
  shows "m = None"
  using assms fold_counts_error [of self train "AssertionError m"]
    fold_counts_error [of self test "AssertionError m"]
  by (auto simp: analyze_cross_predict_structure_def Let_def split: sum.splits if_splits)

section \<open>Properties\<close>

subsection \<open>Reproducible folds\<close>

text \<open>
  Claim C5. Constructing the harness twice on the same data, learner and parameters
  gives the same folds (the same train and test index sequences for every fold), or the
  same exception: the constructor reseeds numpy's generator with 0 before it splits, so
  the state the generator was in before, and everything else in the world, has no
  influence.
\<close>

theorem init_folds_deterministic:
  "map_sum id self_folds (fst (CrossPredict_init lib data Learner hp n_fold verbose w1)) =
   map_sum id self_folds (fst (CrossPredict_init lib data Learner hp n_fold verbose w2))"
  by (simp add: CrossPredict_init_def Let_def split: prod.splits sum.splits)

subsection \<open>Token features\<close>

text \<open>
  Claim C10. \<open>token_features\<close> yields exactly one row per input document, in input
  order; the two columns of the row of a document are the mean and the standard
  deviation of the lengths of its tokens; for a document without tokens both are NaN,
  and no exception is raised.
\<close>

theorem token_features_rows:
  "length (token_features doc_list) = length doc_list \<and>
   (\<forall>i < length doc_list.
      token_features doc_list ! i =
        (np_mean (map length (doc_list ! i)), np_std (map length (doc_list ! i))) \<and>
      (doc_list ! i = [] \<longrightarrow> token_features doc_list ! i = (StatNaN, StatNaN)))"
  by (simp add: token_features_def np_mean_def np_std_def)

theorem token_features_rows_witness:
  "length (token_features [[''ab'', ''abcd''], []]) = 2 \<and>
   token_features [[''ab'', ''abcd''], []] ! 0 = (Stat 3, Stat 1) \<and>
   token_features [[''ab'', ''abcd''], []] ! 1 = (StatNaN, StatNaN)"
  using token_features_rows [of "[[''ab'', ''abcd''], []]"]
  by (simp add: np_mean_def np_std_def)

subsection \<open>The group check of a fold\<close>

text \<open>
  Claim C4. For a fold \<open>k\<close> of a constructed harness: when the set of group labels
  among the train rows of the fold differs from the set among its test rows,
  \<open>train_and_predict_one_fold\<close> raises the assertion error, before any learner is run
  (the world is unchanged). When the two sets are equal (on a dataset whose columns have
  one length, with a learner that returns one prediction per row), it returns, and it
  has run exactly one learner per group label of the fold, in ascending order of the
  label: trained on the train rows of the group, predicting the test rows of the group.
\<close>

theorem one_fold_group_check:
  fixes self :: "('x, 'y, 'g::linorder, 'p, 'v) CrossPredict" and w :: "('p, 'r) world"
  assumes init: "fst (CrossPredict_init lib data Learner hp n_fold verbose w0) = Inr self"
    and k: "k < length (self_folds self)"
  shows "if (\<lambda>i. data_group data ! i) ` set (train (self_folds self ! k)) =
            (\<lambda>i. data_group data ! i) ` set (test (self_folds self ! k))
         then length (data_X data) = length (data_y data) \<and> one_prediction_per_row Learner \<longrightarrow>
           (\<exists>frame w'. train_and_predict_one_fold self k w = (Inr frame, w') \<and>
              trained_on w' = trained_on w @
                map (\<lambda>e. (group_rows (data_group data) (train (self_folds self ! k)) e,
                          group_rows (data_group data) (test (self_folds self ! k)) e))
                  (group_labels (data_group data) (test (self_folds self ! k))) \<and>
              map idx frame = concat (map (group_rows (data_group data) (test (self_folds self ! k)))
                  (group_labels (data_group data) (test (self_folds self ! k)))))
         else train_and_predict_one_fold self k w = (Inl (AssertionError None), w)"
  using init k by (rule one_fold_cases)

theorem one_fold_group_check_witness:
  "train_and_predict_one_fold ex_uneven 0 ex_world = (Inl (AssertionError None), ex_world) \<and>
   (\<exists>frame w'. train_and_predict_one_fold ex_even 0 ex_world = (Inr frame, w') \<and>
      trained_on w' = [([1], [0]), ([3], [2])] \<and> map idx frame = [0, 2])"
proof -
  have k1: "0 < length (self_folds ex_uneven)" and k2: "0 < length (self_folds ex_even)"
    by (simp_all add: ex_uneven_def ex_even_def ex_folds_uneven_def ex_folds_even_def)
  show ?thesis
    using one_fold_group_check [OF init_ex_uneven k1, of ex_world]
      one_fold_group_check [OF init_ex_even k2, of ex_world] ex_Learner_contract
    by (simp add: ex_uneven_def ex_even_def ex_folds_uneven_def ex_folds_even_def
        ex_data_uneven_def ex_data_even_def ex_world_def)
qed

subsection \<open>In-sample fitted values\<close>

text \<open>
  Claim C7. On a constructed harness (dataset columns of one length, learner returning
  one prediction per row), \<open>cheat\<close> uses no fold: it returns, it has run exactly one
  learner per group label of the dataset, each trained on all rows of its group and
  predicting the same rows, and its output holds exactly one record per row of the
  dataset.
\<close>

theorem cheat_in_sample:
  fixes self :: "('x, 'y, 'g::linorder, 'p, 'v) CrossPredict" and w :: "('p, 'r) world"
  assumes init: "fst (CrossPredict_init lib data Learner hp n_fold verbose w0) = Inr self"
    and len: "length (data_X data) = length (data_y data)"
    and learner: "one_prediction_per_row Learner"
  shows "\<exists>out w'. cheat self w = (Inr out, w') \<and>
      trained_on w' = trained_on w @
        map (\<lambda>e. (group_rows (data_group data) [0..<length (data_y data)] e,
                  group_rows (data_group data) [0..<length (data_y data)] e))
          (group_labels (data_group data) [0..<length (data_y data)]) \<and>
      mset (map idx out) = mset [0..<length (data_y data)] \<and>
      length out = length (data_y data)"
proof -
  let ?R = "length (data_y data)"
  let ?gr = "data_group data"
  have d: "self_data self = data" and ks: "self_keys self = keys_of data"
    using init_Inr [OF init] by simp_all
  have rdy: "ready self" using init_ready [OF init len learner] .
  obtain f where f: "f \<in> set (self_folds self)"
    using init_folds [OF init] by (cases "self_folds self") auto
  then have "train f \<noteq> [] \<and> (\<forall>i \<in> set (train f). i < ?R)"
    using init_folds [OF init] by blast
  then have "0 < ?R" by (cases "train f") auto
  then have ne: "[0..<?R] \<noteq> []" by simp
  have rng: "\<forall>i \<in> set [0..<?R]. i < length (data_y (self_data self))"
    using d by simp
  have keys: "self_keys self = map (\<lambda>i. \<lparr>essay_set = ?gr ! i, ref = i\<rparr>) [0..<?R]"
    using ks by (simp add: keys_of_def)
  have ch: "cheat self w = predict_groups self
      (groupby_essay_set (map (\<lambda>i. \<lparr>essay_set = ?gr ! i, ref = i\<rparr>) [0..<?R]))
      (groupby_essay_set (map (\<lambda>i. \<lparr>essay_set = ?gr ! i, ref = i\<rparr>) [0..<?R]))
      (group_labels ?gr [0..<?R]) w"
    unfolding cheat_def Let_def keys groupby_iloc_keys ..
  note pg = predict_groups_Inr [OF rdy rng rng subset_refl ne, of w, unfolded d]
  obtain out w' where out: "cheat self w = (Inr out, w')"
    "map idx out = concat (map (group_rows ?gr [0..<?R]) (group_labels ?gr [0..<?R]))"
    "trained_on w' = trained_on w @
        map (\<lambda>e. (group_rows ?gr [0..<?R] e, group_rows ?gr [0..<?R] e)) (group_labels ?gr [0..<?R])"
    using pg unfolding ch by blast
  have m: "mset (map idx out) = mset [0..<?R]"
    unfolding out(2) using mset_concat_groups [of "\<lambda>i. ?gr ! i" "[0..<?R]"] by simp
  have "length (map idx out) = length [0..<?R]"
    using m by (metis size_mset)
  then have "length out = ?R" by simp
  then show ?thesis using out(1,3) m by blast
qed

theorem cheat_in_sample_witness:
  "\<exists>out w'. cheat ex_uneven ex_world = (Inr out, w') \<and>
      trained_on w' = [([0, 1, 2, 3], [0, 1, 2, 3]), ([4], [4])] \<and>
      mset (map idx out) = mset [0, 1, 2, 3, 4] \<and> length out = 5"
proof -
  have len: "length (data_X ex_data_uneven) = length (data_y ex_data_uneven)"
    by (simp add: ex_data_uneven_def)
  show ?thesis
    using cheat_in_sample [OF init_ex_uneven len ex_Learner_contract, of ex_world]
    by (simp add: ex_data_uneven_def ex_world_def eval_nat_numeral)
qed

subsection \<open>Deep copies of the hyperparameters\<close>

text \<open>
  Claim C6. Let the hyperparameter object of the harness exist in the world \<open>w\<close>, and
  let \<open>w'\<close> be the world after \<open>cross_predict\<close> or after \<open>cheat\<close>, whether it
  returned or raised. Every learner run in between was instantiated on what
  \<^verbatim>\<open>copy.deepcopy\<close> returns for the harness's object: an object that holds the
  value of the harness's object and that is, when the harness's object is compound, an
  object of its own, allocated after \<open>w\<close>, so not the object of the harness; when the
  harness's object is atomic, it is that object, which cannot be changed. The harness's
  object, and every other object of \<open>w\<close>, has in \<open>w'\<close> the value it had in \<open>w\<close>.
  As \<open>w\<close> is arbitrary, this holds after any number of calls.
\<close>

theorem hyperparameters_deep_copied:
  fixes self :: "('x, 'y, 'g::linorder, 'p, 'v) CrossPredict" and w :: "('p, 'r) world"
  assumes "self_params self < length (heap w)"
    and "w' = snd (cross_predict self w) \<or> w' = snd (cheat self w)"
  shows "take (length (heap w)) (heap w') = heap w \<and>
    heap w' ! self_params self = heap w ! self_params self \<and>
    take (length (calls w)) (calls w') = calls w \<and>
    (\<forall>c \<in> set (drop (length (calls w)) (calls w')).
       c_params c = value_of (heap w ! self_params self) \<and>
       (case heap w ! self_params self of
          Atomic v \<Rightarrow> c_addr c = self_params self
        | Compound v \<Rightarrow> length (heap w) \<le> c_addr c \<and> c_addr c \<noteq> self_params self))"
proof -
  have "runs_on_copies (self_params self) w w'"
    using assms(2) cross_predict_copies cheat_copies by blast
  then obtain hs cs where "heap w' = heap w @ hs" "calls w' = calls w @ cs"
    "\<forall>c \<in> set cs. given_copy (self_params self) w c"
    using assms(1) by (auto simp: runs_on_copies_def)
  then show ?thesis
    using assms(1) by (auto simp: nth_append given_copy_def split: obj.splits)
qed

lemma ex_even_after_cross_predict:
  "heap (snd (cross_predict ex_even ex_world))
     = [Compound 7, Compound 8, Compound 8, Compound 8, Compound 8] \<and>
   map c_addr (calls (snd (cross_predict ex_even ex_world))) = [1, 2, 3, 4] \<and>
   map c_params (calls (snd (cross_predict ex_even ex_world))) = [7, 7, 7, 7]"
  by code_simp

lemma ex_even_atomic_after_cross_predict:
  "heap (snd (cross_predict ex_even ex_world_atomic)) = [Atomic 7] \<and>
   map c_addr (calls (snd (cross_predict ex_even ex_world_atomic))) = [0, 0, 0, 0] \<and>
   map c_params (calls (snd (cross_predict ex_even ex_world_atomic))) = [7, 7, 7, 7]"
  by code_simp

theorem hyperparameters_deep_copied_witness:
  "take 1 (heap (snd (cross_predict ex_even ex_world))) = [Compound 7] \<and>
   heap (snd (cross_predict ex_even ex_world)) ! 0 = Compound 7 \<and>
   map c_params (calls (snd (cross_predict ex_even ex_world))) = [7, 7, 7, 7] \<and>
   map c_addr (calls (snd (cross_predict ex_even ex_world))) = [1, 2, 3, 4] \<and>
   heap (snd (cross_predict ex_even ex_world_atomic)) ! 0 = Atomic 7 \<and>
   map c_params (calls (snd (cross_predict ex_even ex_world_atomic))) = [7, 7, 7, 7] \<and>
   map c_addr (calls (snd (cross_predict ex_even ex_world_atomic))) = [0, 0, 0, 0]"
proof -
  have 1: "self_params ex_even < length (heap ex_world)"
    and 2: "self_params ex_even < length (heap ex_world_atomic)"
    by (simp_all add: ex_even_def ex_world_def ex_world_atomic_def)
  from hyperparameters_deep_copied [OF 1, of "snd (cross_predict ex_even ex_world)"]
    hyperparameters_deep_copied [OF 2, of "snd (cross_predict ex_even ex_world_atomic)"]
    ex_even_after_cross_predict ex_even_atomic_after_cross_predict
  show ?thesis by (simp add: ex_world_def ex_world_atomic_def)
qed

subsection \<open>Cross-prediction restores the row order\<close>

text \<open>
  Claim C1, as stated, does not hold: on the first small harness the construction
  succeeds and the test rows of the folds make up the rows 0 to 4 exactly once, yet
  \<open>cross_predict\<close> raises the assertion error of the group check and returns no record.
\<close>

theorem cross_predict_row_order_counterexample:
  "fst (CrossPredict_init (ex_libs ex_folds_uneven) ex_data_uneven ex_Learner 0 2 0 ex_world)
     = Inr ex_uneven \<and>
   sort (concat (map test (self_folds ex_uneven))) = [0, 1, 2, 3, 4] \<and>
   fst (cross_predict ex_uneven ex_world) = Inl (AssertionError None)"
proof (intro conjI)
  show "fst (CrossPredict_init (ex_libs ex_folds_uneven) ex_data_uneven ex_Learner 0 2 0 ex_world)
     = Inr ex_uneven"
    by (rule init_ex_uneven)
  show "sort (concat (map test (self_folds ex_uneven))) = [0, 1, 2, 3, 4]"
    by code_simp
  show "fst (cross_predict ex_uneven ex_world) = Inl (AssertionError None)"
    by code_simp
qed

text \<open>
  Claim C1, amended. Take a constructed harness on a dataset with \<open>R\<close> rows (columns of
  one length, learner returning one prediction per row) whose folds have test rows that
  make up the rows 0 to \<open>R - 1\<close> exactly once. If in every fold the train rows and the
  test rows have the same set of group labels, \<open>cross_predict\<close> returns exactly \<open>R\<close>
  records, and their \<open>idx\<close> values are 0, 1, ..., \<open>R - 1\<close> in this order, whatever the
  order of the folds and groups. Otherwise it raises the assertion error.
\<close>

theorem cross_predict_row_order:
  fixes self :: "('x, 'y, 'g::linorder, 'p, 'v) CrossPredict" and w :: "('p, 'r) world"
  assumes init: "fst (CrossPredict_init lib data Learner hp n_fold verbose w0) = Inr self"
    and len: "length (data_X data) = length (data_y data)"
    and learner: "one_prediction_per_row Learner"
    and part: "mset (concat (map test (self_folds self))) = mset [0..<length (data_y data)]"
  shows "if \<forall>f \<in> set (self_folds self).
              (\<lambda>i. data_group data ! i) ` set (train f) = (\<lambda>i. data_group data ! i) ` set (test f)
         then \<exists>out w'. cross_predict self w = (Inr out, w') \<and>
                map idx out = [0..<length (data_y data)]
         else fst (cross_predict self w) = Inl (AssertionError None)"
  using init len learner part by (rule cross_predict_cases)

theorem cross_predict_row_order_witness:
  "\<exists>out w'. cross_predict ex_even ex_world = (Inr out, w') \<and> map idx out = [0, 1, 2, 3]"
proof -
  have len: "length (data_X ex_data_even) = length (data_y ex_data_even)"
    by (simp add: ex_data_even_def)
  have part: "mset (concat (map test (self_folds ex_even))) = mset [0..<length (data_y ex_data_even)]"
    by (simp add: ex_even_def ex_folds_even_def ex_data_even_def eval_nat_numeral)
  show ?thesis
    using cross_predict_row_order [OF init_ex_even len ex_Learner_contract part, of ex_world]
    by (simp add: ex_even_def ex_folds_even_def ex_data_even_def eval_nat_numeral)
qed

subsection \<open>The degenerate-split check\<close>

text \<open>
  Claim C3, as stated, does not hold. On the first small harness the pairs (fold 0,
  group 2) and (fold 1, group 2) have the counts 0 : 1 and 1 : 0, so over all
  (fold, group) pairs the largest ratio is infinite, the smallest is 0 and their quotient
  is at least 1.02; yet the construction succeeds.
\<close>

theorem degenerate_split_check_counterexample:
  "all_pairs_counts ex_uneven = [(0, 1, 2, 2), (0, 2, 0, 1), (1, 1, 2, 2), (1, 2, 1, 0)] \<and>
   fge (fdiv (max_ratio (all_pairs_counts ex_uneven)) (min_ratio (all_pairs_counts ex_uneven)))
     tolerance \<and>
   fst (CrossPredict_init (ex_libs ex_folds_uneven) ex_data_uneven ex_Learner 0 2 0 ex_world)
     = Inr ex_uneven"
proof (intro conjI)
  show "all_pairs_counts ex_uneven = [(0, 1, 2, 2), (0, 2, 0, 1), (1, 1, 2, 2), (1, 2, 1, 0)]"
    by code_simp
  show "fge (fdiv (max_ratio (all_pairs_counts ex_uneven)) (min_ratio (all_pairs_counts ex_uneven)))
     tolerance"
    by code_simp
  show "fst (CrossPredict_init (ex_libs ex_folds_uneven) ex_data_uneven ex_Learner 0 2 0 ex_world)
     = Inr ex_uneven"
    by (rule init_ex_uneven)
qed

text \<open>
  Claim C3, amended. Let the splitter return folds, let the group and label columns have
  one length, let the two count tables of the structural check be built without an
  exception, and let \<open>df\<close> be their inner join on (fold, group): the pairs that have
  train rows and test rows. Then the construction fails with the assertion error exactly
  if \<open>df\<close> has no row, or the quotient of the largest and the smallest train:test
  ratio over the rows of \<open>df\<close>, computed in binary64, is at least the double 1.02.
  If \<open>df\<close> has a row and the quotient is below, the construction succeeds with the
  harness \<open>self\<close>, the structural check returning \<open>df\<close>.
\<close>

theorem degenerate_split_check:
  fixes self :: "('x, 'y, 'g::linorder, 'p, 'v) CrossPredict" and w :: "('p, 'r) world"
  assumes split: "fst (StratifiedKFold_split lib n_fold (data_X data) (data_group data)
        (np_random_seed lib 0)) = Inr folds"
    and len: "length (data_group data) = length (data_y data)"
    and self: "self = \<lparr>self_data = data, self_params = hp, self_Learner = Learner,
        self_verbose = verbose, self_folds = folds, self_keys = keys_of data\<rparr>"
    and tc: "fold_counts self train = Inr train_counts"
    and sc: "fold_counts self test = Inr test_counts"
    and df: "df = merge_inner train_counts test_counts"
  shows "(fst (CrossPredict_init lib data Learner hp n_fold verbose w) = Inl (AssertionError None))
      = (df = [] \<or> fge (fdiv (max_ratio df) (min_ratio df)) tolerance) \<and>
    (df \<noteq> [] \<and> \<not> fge (fdiv (max_ratio df) (min_ratio df)) tolerance \<longrightarrow>
       fst (CrossPredict_init lib data Learner hp n_fold verbose w) = Inr self \<and>
       analyze_cross_predict_structure self = Inr df)"
  using split len self tc sc df by (rule init_verdict)

theorem degenerate_split_check_witness:
  "fst (CrossPredict_init (ex_libs ex_folds_skewed) ex_data_skewed ex_Learner 0 2 0 ex_world)
     = Inl (AssertionError None) \<and>
   fst (CrossPredict_init (ex_libs ex_folds_disjoint) ex_data_disjoint ex_Learner 0 2 0 ex_world)
     = Inl (AssertionError None) \<and>
   fst (CrossPredict_init (ex_libs ex_folds_even) ex_data_even ex_Learner 0 2 0 ex_world)
     = Inr ex_even \<and>
   analyze_cross_predict_structure ex_even
     = Inr [(0, 1, 1, 1), (0, 2, 1, 1), (1, 1, 1, 1), (1, 2, 1, 1)]"
proof -
  have s1: "fst (StratifiedKFold_split (ex_libs ex_folds_skewed) 2 (data_X ex_data_skewed)
      (data_group ex_data_skewed) (np_random_seed (ex_libs ex_folds_skewed) 0)) = Inr ex_folds_skewed"
    and s2: "fst (StratifiedKFold_split (ex_libs ex_folds_even) 2 (data_X ex_data_even)
      (data_group ex_data_even) (np_random_seed (ex_libs ex_folds_even) 0)) = Inr ex_folds_even"
    and s3: "fst (StratifiedKFold_split (ex_libs ex_folds_disjoint) 2 (data_X ex_data_disjoint)
      (data_group ex_data_disjoint) (np_random_seed (ex_libs ex_folds_disjoint) 0))
        = Inr ex_folds_disjoint"
    by (simp_all add: ex_libs_def)
  have l1: "length (data_group ex_data_skewed) = length (data_y ex_data_skewed)"
    and l2: "length (data_group ex_data_even) = length (data_y ex_data_even)"
    and l3: "length (data_group ex_data_disjoint) = length (data_y ex_data_disjoint)"
    by (simp_all add: ex_data_skewed_def ex_data_even_def ex_data_disjoint_def)
  note skewed = degenerate_split_check [OF s1 l1 ex_skewed_def conjunct1 [OF counts_ex_skewed]
      conjunct2 [OF counts_ex_skewed] join_ex_skewed [symmetric], of ex_world]
  note even = degenerate_split_check [OF s2 l2 ex_even_def conjunct1 [OF counts_ex_even]
      conjunct2 [OF counts_ex_even] join_ex_even [symmetric], of ex_world]
  note disjoint = degenerate_split_check [OF s3 l3 ex_disjoint_def conjunct1 [OF counts_ex_disjoint]
      conjunct2 [OF counts_ex_disjoint] join_ex_disjoint [symmetric], of ex_world]
  show ?thesis
    using skewed even disjoint fge_tolerance
    unfolding spread_ex_skewed spread_ex_even by simp
qed

subsection \<open>Pairs on one side of the join\<close>

text \<open>
  Claim C9. The structural check joins the train counts and the test counts on
  (fold, group) with an inner join. The pairs of the joined table are exactly the pairs
  that occur in both count tables, and the outcome of the check is the one computed from
  the two tables with every row removed whose pair is missing from the other table: a
  pair that occurs in one table only takes no part in the ratios and cannot make the
  assertion fail.
\<close>

theorem one_sided_pairs_excluded:
  fixes self :: "('x, 'y, 'g::linorder, 'p, 'v) CrossPredict"
  assumes tc: "fold_counts self train = Inr train_counts"
    and sc: "fold_counts self test = Inr test_counts"
  shows "let both = (\<lambda>(k, e, c). (k, e)) ` set train_counts \<inter> (\<lambda>(k, e, c). (k, e)) ` set test_counts;
             df = merge_inner (filter (\<lambda>(k, e, c). (k, e) \<in> both) train_counts)
                              (filter (\<lambda>(k, e, c). (k, e) \<in> both) test_counts)
         in df = merge_inner train_counts test_counts \<and>
            (\<lambda>(k, e, a, b). (k, e)) ` set df = both \<and>
            analyze_cross_predict_structure self =
              (if flt (fdiv (max_ratio df) (min_ratio df)) tolerance then Inr df
               else Inl (AssertionError None))"
proof -
  let ?both = "(\<lambda>(k, e, c). (k, e)) ` set train_counts \<inter> (\<lambda>(k, e, c). (k, e)) ` set test_counts"
  have r: "merge_inner (filter (\<lambda>(k, e, c). (k, e) \<in> ?both) train_counts)
                       (filter (\<lambda>(k, e, c). (k, e) \<in> ?both) test_counts)
      = merge_inner train_counts test_counts"
    by (rule merge_inner_restrict)
  have p: "(\<lambda>(k, e, a, b). (k, e)) ` set (merge_inner train_counts test_counts) = ?both"
    by (rule pairs_merge_inner)
  have a: "analyze_cross_predict_structure self =
      (if flt (fdiv (max_ratio (merge_inner train_counts test_counts))
                    (min_ratio (merge_inner train_counts test_counts))) tolerance
       then Inr (merge_inner train_counts test_counts) else Inl (AssertionError None))"
    using analyze_unfold [OF tc sc] by (simp add: Let_def)
  show ?thesis
    unfolding Let_def r using p a by (intro conjI) (rule refl, assumption+)
qed

theorem one_sided_pairs_excluded_witness:
  "fold_counts ex_uneven train = Inr [(0, 1, 2), (1, 1, 2), (1, 2, 1)] \<and>
   fold_counts ex_uneven test = Inr [(0, 1, 2), (0, 2, 1), (1, 1, 2)] \<and>
   analyze_cross_predict_structure ex_uneven = Inr [(0, 1, 2, 2), (1, 1, 2, 2)]"
  using one_sided_pairs_excluded [OF conjunct1 [OF counts_ex_uneven] conjunct2 [OF counts_ex_uneven]]
    counts_ex_uneven analyze_ex_uneven
  by blast

subsection \<open>What a failure carries\<close>

text \<open>
  Claim C8, as stated, does not hold: the group check fails on the first small harness
  (fold 0, group 2) and on the harness with the labels exchanged (fold 0, group 1), and
  the structural check fails on the third; all three raise the same assertion error
  without message, which names neither a fold nor a group.
\<close>

theorem failure_context_counterexample:
  "fst (cross_predict ex_uneven ex_world) = Inl (AssertionError None) \<and>
   fst (cross_predict ex_swapped ex_world) = Inl (AssertionError None) \<and>
   analyze_cross_predict_structure ex_skewed = Inl (AssertionError None)"
  by code_simp

text \<open>
  Claim C8, amended. A failure of the group check or of the structural check is surfaced
  immediately as an assertion error without message; it carries neither the fold index
  nor the group label. The group check of a fold raises before any learner of the fold
  is run (the world is unchanged), and \<open>cross_predict\<close> passes the error on as it is.
\<close>

theorem failures_without_context:
  fixes self :: "('x, 'y, 'g::linorder, 'p, 'v) CrossPredict" and w :: "('p, 'r) world"
  shows "(analyze_cross_predict_structure self = Inl (AssertionError m) \<longrightarrow> m = None) \<and>
    (train_and_predict_one_fold self k w = (Inl (AssertionError m), w') \<longrightarrow> m = None \<and> w' = w) \<and>
    (fst (cross_predict self w) = Inl (AssertionError m) \<longrightarrow> m = None)"
  using analyze_assertion one_fold_assertion cross_predict_assertion by blast

lemma one_fold_ex_uneven:
  "train_and_predict_one_fold ex_uneven 0 ex_world = (Inl (AssertionError None), ex_world)"
  by code_simp

lemma analyze_ex_skewed:
  "analyze_cross_predict_structure ex_skewed = Inl (AssertionError None)"
  by code_simp

theorem failures_without_context_witness:
  "analyze_cross_predict_structure ex_skewed = Inl (AssertionError None) \<and>
   train_and_predict_one_fold ex_uneven 0 ex_world = (Inl (AssertionError None), ex_world) \<and>
   snd (train_and_predict_one_fold ex_uneven 0 ex_world) = ex_world"
  using failures_without_context [of ex_uneven None 0 ex_world ex_world]
    one_fold_ex_uneven analyze_ex_skewed
  by simp

end
